theory Spec2Isabelle
  imports Main "HOL-Library.Word"
begin

section \<open>The segment tracker of the adaptive demuxer (SegmentTracker.cpp)\<close>

text \<open>
  A shallow embedding of \<^verbatim>\<open>src/modules/demux/adaptive/SegmentTracker.cpp\<close>.
  Pointers to representations, adaptation sets and segments are identifiers
  (\<open>nat\<close>), a nullable pointer is an \<open>option\<close> (\<open>None\<close> is \<^verbatim>\<open>nullptr\<close>).
  \<^verbatim>\<open>uint64_t\<close> and \<^verbatim>\<open>mtime_t\<close> (a signed 64-bit integer) are 64-bit words.
  A method that changes the tracker takes the tracker and returns the new one,
  together with its result. The development covers the positions, \<^verbatim>\<open>prepareChunk\<close>,
  \<^verbatim>\<open>getNextChunk\<close>, the seek and start methods and \<^verbatim>\<open>reset\<close>; the read-only
  queries of lines 208-235 and 544-624 are left out.
\<close>

type_synonym uint64_t = "64 word"
type_synonym mtime_t = "64 word"

text \<open>\<^verbatim>\<open>std::numeric_limits<uint64_t>::max()\<close>, the "unset" segment number.\<close>

definition uint64_max :: uint64_t where
  "uint64_max = 18446744073709551615"

subsection \<open>Position\<close>

record Position =
  number :: uint64_t
  rep :: "nat option"
  init_sent :: bool
  index_sent :: bool

text \<open>\<^verbatim>\<open>Position::Position()\<close>, lines 151-157.\<close>

definition Position_default :: Position where
  "Position_default =
     \<lparr>number = uint64_max, rep = None, init_sent = False, index_sent = False\<rparr>"

text \<open>\<^verbatim>\<open>Position::Position(BaseRepresentation *rep, uint64_t number)\<close>, lines 159-165.\<close>

definition Position_at :: "nat option \<Rightarrow> uint64_t \<Rightarrow> Position" where
  "Position_at r n = \<lparr>number = n, rep = r, init_sent = False, index_sent = False\<rparr>"

text \<open>\<^verbatim>\<open>Position::isValid\<close>, lines 167-171.\<close>

definition Position_isValid :: "Position \<Rightarrow> bool" where
  "Position_isValid p = (number p \<noteq> uint64_max \<and> rep p \<noteq> None)"

text \<open>\<^verbatim>\<open>Position::operator ++\<close>, lines 187-200.\<close>

definition Position_incr :: "Position \<Rightarrow> Position" where
  "Position_incr p =
     (if Position_isValid p then
        (if index_sent p then p\<lparr>number := number p + 1\<rparr>
         else if init_sent p then p\<lparr>index_sent := True\<rparr>
         else p\<lparr>init_sent := True\<rparr>)
      else p)"

subsection \<open>Stream formats, chunks, chunk entries, events\<close>

text \<open>
  Modelled from the spec: the class \<^verbatim>\<open>StreamFormat\<close> is declared outside this file.
  The tracker only compares formats with each other and with the two tags
  \<^verbatim>\<open>Type::Unknown\<close> and \<^verbatim>\<open>Type::Unsupported\<close>; every other format is a
  "known-codec tag", \<open>Known k\<close>.
\<close>

datatype StreamFormat = Unknown | Unsupported | Known nat

text \<open>
  What the tracker reads and writes of a \<^verbatim>\<open>SegmentChunk\<close>: the public fields
  \<^verbatim>\<open>discontinuity\<close> and \<^verbatim>\<open>discontinuitySequenceNumber\<close>, the format slot
  (\<^verbatim>\<open>getStreamFormat\<close>, \<^verbatim>\<open>setStreamFormat\<close>), \<^verbatim>\<open>getContentType\<close>, and the
  leading bytes that \<^verbatim>\<open>ProbeableChunk::peek\<close> yields.
\<close>

record SegmentChunk =
  discontinuity :: bool
  discontinuitySequenceNumber :: uint64_t
  streamFormat :: StreamFormat
  contentType :: string
  peek :: "8 word list"

text \<open>
  The \<^verbatim>\<open>ChunkInterface *\<close> handed to the caller: the chunk itself, or the chunk
  wrapped in a \<^verbatim>\<open>ProbeableChunk\<close>.
\<close>

datatype ChunkInterface = PlainChunk SegmentChunk | ProbeableChunk SegmentChunk

fun unwrapped :: "ChunkInterface \<Rightarrow> SegmentChunk" where
  "unwrapped (PlainChunk c) = c"
| "unwrapped (ProbeableChunk c) = c"

record ChunkEntry =
  chunk :: "SegmentChunk option"
  pos :: Position
  duration :: mtime_t
  starttime :: mtime_t
  displaytime :: mtime_t

text \<open>
  \<^verbatim>\<open>ChunkEntry::ChunkEntry()\<close>, lines 247-250. The source leaves the three times
  uninitialised; nothing reads them on such an entry, and the model puts 0.
\<close>

definition ChunkEntry_default :: ChunkEntry where
  "ChunkEntry_default =
     \<lparr>chunk = None, pos = Position_default, duration = 0, starttime = 0, displaytime = 0\<rparr>"

text \<open>\<^verbatim>\<open>ChunkEntry::ChunkEntry(c, p, s, d, dt)\<close>, lines 252-259.\<close>

definition ChunkEntry_of ::
  "SegmentChunk option \<Rightarrow> Position \<Rightarrow> mtime_t \<Rightarrow> mtime_t \<Rightarrow> mtime_t \<Rightarrow> ChunkEntry" where
  "ChunkEntry_of c p s d dt =
     \<lparr>chunk = c, pos = p, duration = d, starttime = s, displaytime = dt\<rparr>"

text \<open>\<^verbatim>\<open>ChunkEntry::isValid\<close>, lines 261-264.\<close>

definition ChunkEntry_isValid :: "ChunkEntry \<Rightarrow> bool" where
  "ChunkEntry_isValid e = (chunk e \<noteq> None \<and> Position_isValid (pos e))"

text \<open>The event classes of lines 41-128, one constructor per class.\<close>

datatype TrackerEvent =
    Discontinuity uint64_t
  | SegmentGap
  | RepresentationSwitch "nat option" "nat option"
  | RepresentationUpdated "nat option"
  | RepresentationUpdateFailed "nat option"
  | FormatChange StreamFormat
  | SegmentChange nat uint64_t mtime_t mtime_t mtime_t
  | BufferingStateUpdate nat bool
  | BufferingLevelChange nat mtime_t mtime_t mtime_t mtime_t
  | PositionChange mtime_t

subsection \<open>The collaborators\<close>

text \<open>
  The representations, the adaptation set, the adaptation logic, the buffering
  logic, the segments and the listeners are declared outside this file. Their state
  is an element of type \<open>'w\<close>; each method the tracker calls is a parameter. Queries read
  the state; \<^verbatim>\<open>runLocalUpdates\<close> and \<^verbatim>\<open>scheduleNextUpdate\<close> change it, and so may
  the listeners when they are notified (\<open>trackerEvent\<close>). An out-parameter is a
  component of the result. \<open>formatOfBytes\<close> and \<open>formatOfContentType\<close> are the
  constructors \<^verbatim>\<open>StreamFormat(p_peek, i_peek)\<close> and \<^verbatim>\<open>StreamFormat(std::string)\<close>;
  \<open>ts_invalid\<close> and \<open>ts_0\<close> are the macros \<^verbatim>\<open>VLC_TS_INVALID\<close> and \<^verbatim>\<open>VLC_TS_0\<close>.
\<close>

record 'w Collaborators =
  isSegmentAligned :: "'w \<Rightarrow> nat \<Rightarrow> bool"
  getID :: "'w \<Rightarrow> nat \<Rightarrow> nat"
  getNextRepresentation :: "'w \<Rightarrow> nat option \<Rightarrow> nat option \<Rightarrow> nat option"
  getStartSegmentNumber :: "'w \<Rightarrow> nat \<Rightarrow> uint64_t"
  translateSegmentNumber :: "'w \<Rightarrow> nat \<Rightarrow> uint64_t \<Rightarrow> nat option \<Rightarrow> uint64_t"
  needsUpdate :: "'w \<Rightarrow> nat \<Rightarrow> uint64_t \<Rightarrow> bool"
  runLocalUpdates :: "'w \<Rightarrow> nat \<Rightarrow> bool \<times> 'w"
  scheduleNextUpdate :: "'w \<Rightarrow> nat \<Rightarrow> uint64_t \<Rightarrow> bool \<Rightarrow> 'w"
  getMinAheadTime :: "'w \<Rightarrow> nat \<Rightarrow> uint64_t \<Rightarrow> mtime_t"
  getNextMediaSegment :: "'w \<Rightarrow> nat \<Rightarrow> uint64_t \<Rightarrow> nat option \<times> uint64_t \<times> bool"
  getInitSegment :: "'w \<Rightarrow> nat \<Rightarrow> nat option"
  needsIndex :: "'w \<Rightarrow> nat \<Rightarrow> bool"
  getIndexSegment :: "'w \<Rightarrow> nat \<Rightarrow> nat option"
  toChunk :: "'w \<Rightarrow> nat \<Rightarrow> nat \<Rightarrow> uint64_t \<Rightarrow> nat \<Rightarrow> SegmentChunk option"
  getDisplayTime :: "'w \<Rightarrow> nat \<Rightarrow> mtime_t"
  getPlaybackTimeDurationBySegmentNumber ::
    "'w \<Rightarrow> nat \<Rightarrow> uint64_t \<Rightarrow> (mtime_t \<times> mtime_t) option"
  getSegmentNumberByTime :: "'w \<Rightarrow> nat \<Rightarrow> mtime_t \<Rightarrow> uint64_t option"
  trackerEvent :: "TrackerEvent \<Rightarrow> 'w \<Rightarrow> 'w"
  formatOfBytes :: "8 word list \<Rightarrow> StreamFormat"
  formatOfContentType :: "string \<Rightarrow> StreamFormat"
  ts_invalid :: mtime_t
  ts_0 :: mtime_t

subsection \<open>The tracker\<close>

text \<open>
  The fields of the class that this file reads or writes; \<open>next_pos\<close> is the
  member \<^verbatim>\<open>next\<close>, and \<open>adaptationSet\<close> the identifier of the adaptation set or
  null. \<open>events\<close> is the sequence of events passed to \<^verbatim>\<open>notify\<close> so far, oldest
  first; \<open>world\<close> is the state of the collaborators.
\<close>

record 'w SegmentTracker =
  current :: Position
  next_pos :: Position
  format :: StreamFormat
  initializing :: bool
  first :: bool
  chunkssequence :: "ChunkEntry list"
  adaptationSet :: "nat option"
  events :: "TrackerEvent list"
  world :: 'w

text \<open>
  \<^verbatim>\<open>SegmentTracker::notify\<close>, lines 626-631: every listener receives the event.
\<close>

definition notify ::
  "'w Collaborators \<Rightarrow> TrackerEvent \<Rightarrow> 'w SegmentTracker \<Rightarrow> 'w SegmentTracker" where
  "notify env ev s =
     s\<lparr>events := events s @ [ev], world := trackerEvent env ev (world s)\<rparr>"

text \<open>The constructor, lines 130-144; \<open>current\<close> and \<open>next\<close> are default positions.\<close>

definition SegmentTracker_new :: "nat option \<Rightarrow> 'w \<Rightarrow> 'w SegmentTracker" where
  "SegmentTracker_new adaptSet w =
     \<lparr>current = Position_default, next_pos = Position_default, format = Unknown,
      initializing = True, first = True, chunkssequence = [],
      adaptationSet = adaptSet, events = [], world = w\<rparr>"

text \<open>\<^verbatim>\<open>SegmentTracker::resetChunksSequence\<close>, lines 350-357.\<close>

fun popAll :: "ChunkEntry list \<Rightarrow> ChunkEntry list" where
  "popAll [] = []"
| "popAll (e # es) = popAll es"

definition resetChunksSequence :: "'w SegmentTracker \<Rightarrow> 'w SegmentTracker" where
  "resetChunksSequence s = s\<lparr>chunkssequence := popAll (chunkssequence s)\<rparr>"

text \<open>\<^verbatim>\<open>SegmentTracker::reset\<close>, lines 237-245.\<close>

definition reset :: "'w Collaborators \<Rightarrow> 'w SegmentTracker \<Rightarrow> 'w SegmentTracker" where
  "reset env s =
     (let s1 = notify env (RepresentationSwitch (rep (current s)) None) s;
          s2 = s1\<lparr>current := Position_default\<rparr>;
          s3 = s2\<lparr>next_pos := Position_default\<rparr>;
          s4 = resetChunksSequence s3;
          s5 = s4\<lparr>initializing := True\<rparr>
      in s5\<lparr>format := Unknown\<rparr>)"

text \<open>The destructor, lines 146-149.\<close>

definition SegmentTracker_delete ::
  "'w Collaborators \<Rightarrow> 'w SegmentTracker \<Rightarrow> 'w SegmentTracker" where
  "SegmentTracker_delete env s = reset env s"

subsection \<open>Preparing a chunk\<close>

text \<open>\<^verbatim>\<open>SegmentTracker::getStartPosition\<close>, lines 499-513.\<close>

definition getStartPosition ::
  "'w Collaborators \<Rightarrow> 'w SegmentTracker \<Rightarrow> Position \<times> 'w SegmentTracker" where
  "getStartPosition env s =
     (let p = Position_default
                \<lparr>rep := getNextRepresentation env (world s) (adaptationSet s) None\<rparr>
      in case rep p of
           None \<Rightarrow> (p, s)
         | Some r \<Rightarrow>
             (let (b_updated, w1) =
                    (if needsUpdate env (world s) r (number p)
                     then runLocalUpdates env (world s) r
                     else (False, world s));
                  p1 = p\<lparr>number := getStartSegmentNumber env w1 r\<rparr>;
                  s1 = s\<lparr>world := scheduleNextUpdate env w1 r (number p1) b_updated\<rparr>
              in (p1, if b_updated then notify env (RepresentationUpdated (Some r)) s1
                      else s1)))"

text \<open>
  \<^verbatim>\<open>prepareChunk\<close>, lines 292-300, for a candidate \<open>temp\<close> on representation
  \<open>tr\<close>: the segment number is translated, the candidate refreshed when it needs
  it, and the translation tried again when it gave no valid position.
\<close>

definition translateCandidate ::
  "'w Collaborators \<Rightarrow> Position \<Rightarrow> nat \<Rightarrow> Position \<Rightarrow> 'w SegmentTracker
     \<Rightarrow> Position \<times> 'w SegmentTracker" where
  "translateCandidate env temp tr p s =
     (let temp1 = temp\<lparr>number := translateSegmentNumber env (world s) tr (number p) (rep p)\<rparr>;
          s1 = (if needsUpdate env (world s) tr (number temp1) then
                  (let (b, w1) = runLocalUpdates env (world s) tr
                   in s\<lparr>world := scheduleNextUpdate env w1 tr (number temp1) b\<rparr>)
                else s);
          temp2 = (if \<not> Position_isValid temp1 then
                     temp1\<lparr>number :=
                       translateSegmentNumber env (world s1) tr (number p) (rep p)\<rparr>
                   else temp1)
      in (temp2, s1))"

text \<open>
  The body of \<^verbatim>\<open>if(switch_allowed)\<close> in \<^verbatim>\<open>prepareChunk\<close>, lines 287-307: the
  position to continue from, and the tracker after the candidate's refresh.
\<close>

definition switchCandidate ::
  "'w Collaborators \<Rightarrow> Position \<Rightarrow> 'w SegmentTracker \<Rightarrow> Position \<times> 'w SegmentTracker" where
  "switchCandidate env p s =
     (let temp = Position_default
                   \<lparr>rep := getNextRepresentation env (world s) (adaptationSet s) (rep p)\<rparr>;
          (temp4, s2) =
            (case rep temp of
               None \<Rightarrow> (temp, s)
             | Some tr \<Rightarrow>
                 if rep temp \<noteq> rep p then
                   (let (temp2, s1) = translateCandidate env temp tr p s;
                        temp3 = (if Position_isValid temp2 \<and>
                                    getMinAheadTime env (world s1) tr (number temp2) = 0
                                 then Position_default else temp2)
                    in (temp3, s1))
                 else (temp, s))
      in (if Position_isValid temp4 then temp4 else p, s2))"

text \<open>
  \<^verbatim>\<open>prepareChunk\<close>, lines 317-323: the init segment when it has not been sent;
  the position skips the stage when the representation has none.
\<close>

definition initStage ::
  "'w Collaborators \<Rightarrow> nat \<Rightarrow> Position \<Rightarrow> 'w SegmentTracker \<Rightarrow> nat option \<times> Position" where
  "initStage env r p s =
     (if \<not> init_sent p then
        (case getInitSegment env (world s) r of
           None \<Rightarrow> (None, Position_incr p)
         | Some sg \<Rightarrow> (Some sg, p))
      else (None, p))"

text \<open>\<^verbatim>\<open>prepareChunk\<close>, lines 325-331: the index segment, in the same way.\<close>

definition indexStage ::
  "'w Collaborators \<Rightarrow> nat \<Rightarrow> nat option \<Rightarrow> Position \<Rightarrow> 'w SegmentTracker
     \<Rightarrow> nat option \<times> Position" where
  "indexStage env r segment p s =
     (if segment = None \<and> \<not> index_sent p then
        (case (if needsIndex env (world s) r then getIndexSegment env (world s) r else None) of
           None \<Rightarrow> (None, Position_incr p)
         | Some sg \<Rightarrow> (Some sg, p))
      else (segment, p))"

text \<open>
  \<^verbatim>\<open>prepareChunk\<close>, lines 340-345: start time and duration of segment \<open>n\<close>. The
  representation is taken to leave the out-parameters alone when it returns false.
\<close>

definition chunkTimes ::
  "'w Collaborators \<Rightarrow> nat \<Rightarrow> uint64_t \<Rightarrow> 'w SegmentTracker \<Rightarrow> mtime_t \<times> mtime_t" where
  "chunkTimes env r n s =
     (case getPlaybackTimeDurationBySegmentNumber env (world s) r n of
        Some (st, d) \<Rightarrow> (st + ts_0 env, d)
      | None \<Rightarrow> (ts_invalid env, 0))"

text \<open>
  The rest of \<^verbatim>\<open>prepareChunk\<close>, lines 311-347, from a valid position: the media
  segment, the stage (init, index, media), the chunk and its times. The first branch
  is for a null \<^verbatim>\<open>pos.rep\<close>, which the source would dereference; no caller reaches it.
\<close>

definition chunkFrom ::
  "'w Collaborators \<Rightarrow> Position \<Rightarrow> nat \<Rightarrow> 'w SegmentTracker \<Rightarrow> ChunkEntry" where
  "chunkFrom env p connManager s =
     (case rep p of
        None \<Rightarrow> ChunkEntry_default
      | Some r \<Rightarrow>
          (case getNextMediaSegment env (world s) r (number p) of
             (None, n, b_gap) \<Rightarrow> ChunkEntry_default
           | (Some datasegment, n, b_gap) \<Rightarrow>
               (let (segment1, p2) = initStage env r (p\<lparr>number := n\<rparr>) s;
                    (segment2, p3) = indexStage env r segment1 p2 s;
                    segment = (case segment2 of None \<Rightarrow> datasegment | Some sg \<Rightarrow> sg)
                in case toChunk env (world s) segment connManager (number p3) r of
                     None \<Rightarrow> ChunkEntry_default
                   | Some segmentChunk \<Rightarrow>
                       (let displayTime = getDisplayTime env (world s) datasegment;
                            (startTime, dur) = chunkTimes env r (number p3) s
                        in ChunkEntry_of (Some segmentChunk) p3 startTime dur displayTime))))"

text \<open>\<^verbatim>\<open>SegmentTracker::prepareChunk\<close>, lines 266-348.\<close>

definition prepareChunk ::
  "'w Collaborators \<Rightarrow> bool \<Rightarrow> Position \<Rightarrow> nat \<Rightarrow> 'w SegmentTracker
     \<Rightarrow> ChunkEntry \<times> 'w SegmentTracker" where
  "prepareChunk env switch_allowed p connManager s =
     (case adaptationSet s of
        None \<Rightarrow> (ChunkEntry_default, s)
      | Some a \<Rightarrow>
          if \<not> Position_isValid p then
            (let (p1, s1) = getStartPosition env s
             in if \<not> Position_isValid p1 then (ChunkEntry_default, s1)
                else (chunkFrom env p1 connManager s1, s1))
          else
            (let switch_allowed1 =
                   (if \<not> isSegmentAligned env (world s) a \<or> \<not> init_sent p \<or> \<not> index_sent p
                    then False else switch_allowed);
                 (p1, s1) = (if switch_allowed1 then switchCandidate env p s else (p, s))
             in (chunkFrom env p1 connManager s1, s1)))"

subsection \<open>Delivering a chunk\<close>

text \<open>
  \<^verbatim>\<open>getNextChunk\<close>, lines 362-371: the entry at the front of the queue, prepared
  first when the queue is empty; \<open>None\<close> when the call returns at line 363.
\<close>

definition frontEntry ::
  "'w Collaborators \<Rightarrow> bool \<Rightarrow> nat \<Rightarrow> 'w SegmentTracker
     \<Rightarrow> (ChunkEntry \<times> 'w SegmentTracker) option" where
  "frontEntry env switch_allowed connManager s =
     (if adaptationSet s = None \<or> \<not> Position_isValid (next_pos s) then None
      else
        (let s1 = (if chunkssequence s = [] then
                     (let (e, s') = prepareChunk env switch_allowed (next_pos s) connManager s
                      in s'\<lparr>chunkssequence := chunkssequence s' @ [e]\<rparr>)
                   else s)
         in case chunkssequence s1 of
              [] \<Rightarrow> None
            | e # es \<Rightarrow> Some (e, s1)))"

text \<open>
  \<^verbatim>\<open>getNextChunk\<close>, lines 380-387: the three flags, for the front entry \<open>e\<close> and
  its chunk \<open>c\<close>.
\<close>

definition b_gap :: "'w SegmentTracker \<Rightarrow> ChunkEntry \<Rightarrow> bool" where
  "b_gap s e = (number (next_pos s) \<noteq> number (pos e))"

definition b_switched :: "'w SegmentTracker \<Rightarrow> ChunkEntry \<Rightarrow> bool" where
  "b_switched s e = (rep (next_pos s) \<noteq> rep (pos e) \<or> rep (current s) = None)"

definition b_discontinuity :: "'w SegmentTracker \<Rightarrow> SegmentChunk \<Rightarrow> bool" where
  "b_discontinuity s c =
     (let d = (discontinuity c \<and> Position_isValid (current s))
      in if d \<and> number (current s) = number (next_pos s) then False else d)"

text \<open>Lines 390-394.\<close>

definition announceSwitch ::
  "'w Collaborators \<Rightarrow> ChunkEntry \<Rightarrow> 'w SegmentTracker \<Rightarrow> 'w SegmentTracker" where
  "announceSwitch env e s =
     (if b_switched s e then
        (notify env (RepresentationSwitch (rep (next_pos s)) (rep (pos e))) s)
          \<lparr>initializing := True\<rparr>
      else s)"

text \<open>Line 397: \<^verbatim>\<open>next = current = chunk.pos\<close>.\<close>

definition advanceTo :: "ChunkEntry \<Rightarrow> 'w SegmentTracker \<Rightarrow> 'w SegmentTracker" where
  "advanceTo e s = s\<lparr>current := pos e, next_pos := pos e\<rparr>"

text \<open>
  Lines 403-419: the chunk to return, \<^verbatim>\<open>chunkformat\<close>, and the tracker. A chunk of
  unknown format is wrapped and probed, and the probed format stored on it.
\<close>

definition probeFormat ::
  "'w Collaborators \<Rightarrow> SegmentChunk \<Rightarrow> 'w SegmentTracker
     \<Rightarrow> ChunkInterface \<times> StreamFormat \<times> 'w SegmentTracker" where
  "probeFormat env c s =
     (if streamFormat c = Unknown then
        (let chunkformat = formatOfBytes env (peek c);
             s1 = (if chunkformat = Unknown
                   then s\<lparr>format := formatOfContentType env (contentType c)\<rparr>
                   else s)
         in (ProbeableChunk (c\<lparr>streamFormat := chunkformat\<rparr>), chunkformat, s1))
      else (PlainChunk c, streamFormat c, s))"

text \<open>Lines 421-426.\<close>

definition announceFormat ::
  "'w Collaborators \<Rightarrow> StreamFormat \<Rightarrow> 'w SegmentTracker \<Rightarrow> 'w SegmentTracker" where
  "announceFormat env chunkformat s =
     (if chunkformat \<noteq> format s \<and> chunkformat \<noteq> Unknown then
        notify env (FormatChange chunkformat) (s\<lparr>format := chunkformat\<rparr>)
      else s)"

text \<open>Line 429.\<close>

definition popFront :: "'w SegmentTracker \<Rightarrow> 'w SegmentTracker" where
  "popFront s = s\<lparr>chunkssequence := tl (chunkssequence s)\<rparr>"

text \<open>Lines 432-437: the gap flag after the first chunk's exemption, and the tracker.\<close>

definition endInitializing :: "bool \<Rightarrow> 'w SegmentTracker \<Rightarrow> bool \<times> 'w SegmentTracker" where
  "endInitializing gap s =
     (if initializing s then (False, s\<lparr>initializing := False\<rparr>) else (gap, s))"

text \<open>
  Lines 439-449. The adaptation set is not null here (line 362); the model notifies
  no segment change if it were.
\<close>

definition announceSegment ::
  "'w Collaborators \<Rightarrow> ChunkEntry \<Rightarrow> uint64_t \<Rightarrow> bool \<Rightarrow> bool \<Rightarrow> 'w SegmentTracker
     \<Rightarrow> 'w SegmentTracker" where
  "announceSegment env e dsn gap disc s =
     (let s1 = (if gap then notify env SegmentGap s else s);
          s2 = (if disc then notify env (Discontinuity dsn) s1 else s1)
      in case adaptationSet s2 of
           None \<Rightarrow> s2
         | Some a \<Rightarrow>
             notify env (SegmentChange (getID env (world s2) a) dsn
                           (starttime e) (duration e) (displaytime e)) s2)"

text \<open>Lines 451-452.\<close>

definition advanceNext :: "bool \<Rightarrow> 'w SegmentTracker \<Rightarrow> 'w SegmentTracker" where
  "advanceNext gap s = (if \<not> gap then s\<lparr>next_pos := Position_incr (next_pos s)\<rparr> else s)"

text \<open>
  \<^verbatim>\<open>getNextChunk\<close>, lines 379-454, for a valid front entry \<open>e\<close> with chunk \<open>c\<close>.
\<close>

definition deliver ::
  "'w Collaborators \<Rightarrow> ChunkEntry \<Rightarrow> SegmentChunk \<Rightarrow> 'w SegmentTracker
     \<Rightarrow> ChunkInterface option \<times> 'w SegmentTracker" where
  "deliver env e c s =
     (let gap = b_gap s e;
          disc = b_discontinuity s c;
          dsn = discontinuitySequenceNumber c;
          s2 = advanceTo e (announceSwitch env e s)
      in if format s2 = Unsupported then (None, s2)
         else
           (let (returnedChunk, chunkformat, s3) = probeFormat env c s2;
                s5 = popFront (announceFormat env chunkformat s3);
                (gap1, s6) = endInitializing gap s5;
                s9 = announceSegment env e dsn gap1 disc s6
            in (Some returnedChunk, advanceNext gap1 s9)))"

text \<open>\<^verbatim>\<open>SegmentTracker::getNextChunk\<close>, lines 359-455.\<close>

definition getNextChunk ::
  "'w Collaborators \<Rightarrow> bool \<Rightarrow> nat \<Rightarrow> 'w SegmentTracker
     \<Rightarrow> ChunkInterface option \<times> 'w SegmentTracker" where
  "getNextChunk env switch_allowed connManager s =
     (case frontEntry env switch_allowed connManager s of
        None \<Rightarrow> (None, s)
      | Some (e, s1) \<Rightarrow>
          (case chunk e of
             Some c \<Rightarrow>
               if Position_isValid (pos e) then deliver env e c s1
               else (None, s1\<lparr>chunkssequence := tl (chunkssequence s1)\<rparr>)
           | None \<Rightarrow> (None, s1\<lparr>chunkssequence := tl (chunkssequence s1)\<rparr>)))"

subsection \<open>Seeking\<close>

text \<open>\<^verbatim>\<open>SegmentTracker::getPlaybackTime\<close>, lines 528-542.\<close>

definition getPlaybackTime :: "'w Collaborators \<Rightarrow> bool \<Rightarrow> 'w SegmentTracker \<Rightarrow> mtime_t" where
  "getPlaybackTime env b_next s =
     (case (case rep (current s) of
              None \<Rightarrow> getNextRepresentation env (world s) (adaptationSet s) None
            | Some r \<Rightarrow> Some r) of
        None \<Rightarrow> 0
      | Some r \<Rightarrow>
          (case getPlaybackTimeDurationBySegmentNumber env (world s) r
                  (if b_next then number (next_pos s) else number (current s)) of
             Some (t, d) \<Rightarrow> t
           | None \<Rightarrow> 0))"

text \<open>\<^verbatim>\<open>SegmentTracker::setPosition\<close>, lines 489-497.\<close>

definition setPosition ::
  "'w Collaborators \<Rightarrow> Position \<Rightarrow> bool \<Rightarrow> 'w SegmentTracker \<Rightarrow> 'w SegmentTracker" where
  "setPosition env p restarted s =
     (let s1 = (if restarted then s\<lparr>initializing := True\<rparr> else s);
          s2 = s1\<lparr>current := Position_default\<rparr>;
          s3 = s2\<lparr>next_pos := p\<rparr>;
          s4 = resetChunksSequence s3
      in notify env (PositionChange (getPlaybackTime env True s4)) s4)"

text \<open>
  \<^verbatim>\<open>setPositionByTime\<close>, lines 459-461: the position the seek starts from.
\<close>

definition seekPosition :: "'w Collaborators \<Rightarrow> 'w SegmentTracker \<Rightarrow> Position" where
  "seekPosition env s =
     (let p = Position_at (rep (current s)) (number (current s))
      in if \<not> Position_isValid p
         then p\<lparr>rep := getNextRepresentation env (world s) (adaptationSet s) None\<rparr>
         else p)"

text \<open>
  \<^verbatim>\<open>setPositionByTime\<close>, lines 467-478: the synchronous refresh of representation
  \<open>r\<close>; the flag is \<open>False\<close> when the call returns at line 474.
\<close>

definition seekRefresh ::
  "'w Collaborators \<Rightarrow> nat \<Rightarrow> uint64_t \<Rightarrow> 'w SegmentTracker \<Rightarrow> bool \<times> 'w SegmentTracker" where
  "seekRefresh env r n s =
     (if needsUpdate env (world s) r n then
        (case runLocalUpdates env (world s) r of
           (updated, w1) \<Rightarrow>
             if \<not> updated then (False, s\<lparr>world := w1\<rparr>)
             else (True, notify env (RepresentationUpdated (Some r))
                           (s\<lparr>world := scheduleNextUpdate env w1 r n True\<rparr>)))
      else (True, s))"

text \<open>\<^verbatim>\<open>SegmentTracker::setPositionByTime\<close>, lines 457-487.\<close>

definition setPositionByTime ::
  "'w Collaborators \<Rightarrow> mtime_t \<Rightarrow> bool \<Rightarrow> bool \<Rightarrow> 'w SegmentTracker
     \<Rightarrow> bool \<times> 'w SegmentTracker" where
  "setPositionByTime env time restarted tryonly s =
     (let p = seekPosition env s
      in case rep p of
           None \<Rightarrow> (False, s)
         | Some r \<Rightarrow>
             (case seekRefresh env r (number p) s of
                (False, s1) \<Rightarrow> (False, s1)
              | (True, s1) \<Rightarrow>
                  (case getSegmentNumberByTime env (world s1) r time of
                     Some n \<Rightarrow>
                       (True, if \<not> tryonly then setPosition env (p\<lparr>number := n\<rparr>) restarted s1
                              else s1)
                   | None \<Rightarrow> (False, s1))))"

text \<open>\<^verbatim>\<open>SegmentTracker::setStartPosition\<close>, lines 515-526.\<close>

definition setStartPosition ::
  "'w Collaborators \<Rightarrow> 'w SegmentTracker \<Rightarrow> bool \<times> 'w SegmentTracker" where
  "setStartPosition env s =
     (if Position_isValid (next_pos s) then (True, s)
      else (let (p, s1) = getStartPosition env s
            in if \<not> Position_isValid p then (False, s1)
               else (True, s1\<lparr>next_pos := p\<rparr>)))"

subsection \<open>Sequences of calls\<close>

text \<open>
  The calls a client makes on a tracker, and what each returns. \<open>run\<close> makes the
  calls of a list in order and collects the results.
\<close>

datatype Call =
    GetNextChunk bool nat
  | SetPositionByTime mtime_t bool bool
  | SetPosition Position bool
  | SetStartPosition
  | Reset

datatype Outcome = Returned "ChunkInterface option" | Answered bool | Finished

fun call ::
  "'w Collaborators \<Rightarrow> Call \<Rightarrow> 'w SegmentTracker \<Rightarrow> Outcome \<times> 'w SegmentTracker" where
  "call env (GetNextChunk switch_allowed connManager) s =
     (case getNextChunk env switch_allowed connManager s of (r, s1) \<Rightarrow> (Returned r, s1))"
| "call env (SetPositionByTime time restarted tryonly) s =
     (case setPositionByTime env time restarted tryonly s of (b, s1) \<Rightarrow> (Answered b, s1))"
| "call env (SetPosition p restarted) s = (Finished, setPosition env p restarted s)"
| "call env SetStartPosition s =
     (case setStartPosition env s of (b, s1) \<Rightarrow> (Answered b, s1))"
| "call env Reset s = (Finished, reset env s)"

fun run ::
  "'w Collaborators \<Rightarrow> Call list \<Rightarrow> 'w SegmentTracker \<Rightarrow> Outcome list \<times> 'w SegmentTracker" where
  "run env [] s = ([], s)"
| "run env (c # cs) s =
     (case call env c s of
        (r, s1) \<Rightarrow> (case run env cs s1 of (rs, s2) \<Rightarrow> (r # rs, s2)))"

text \<open>The events notified between state \<open>s\<close> and a later state \<open>s'\<close>.\<close>

definition emitted :: "'w SegmentTracker \<Rightarrow> 'w SegmentTracker \<Rightarrow> TrackerEvent list" where
  "emitted s s' = drop (length (events s)) (events s')"

subsection \<open>A concrete playlist\<close>

text \<open>
  A small set of collaborators on which the definitions can be run: the state of the
  world counts the refreshes made; the logic starts on representation 1 and proposes
  representation 2 once one is playing; every representation has an init segment 5,
  an index segment 6 and media segments 7 under the requested number; chunks are
  MP4 (format \<open>Known 1\<close>).
\<close>

definition mp4Chunk :: SegmentChunk where
  "mp4Chunk =
     \<lparr>discontinuity = False, discontinuitySequenceNumber = 0, streamFormat = Known 1,
      contentType = ''video/mp4'', peek = []\<rparr>"

definition vod :: "nat Collaborators" where
  "vod =
     \<lparr>isSegmentAligned = (\<lambda>w a. True),
      getID = (\<lambda>w a. a),
      getNextRepresentation = (\<lambda>w a cur. case cur of None \<Rightarrow> Some 1 | Some r \<Rightarrow> Some 2),
      getStartSegmentNumber = (\<lambda>w r. 10),
      translateSegmentNumber = (\<lambda>w r n from. n),
      needsUpdate = (\<lambda>w r n. False),
      runLocalUpdates = (\<lambda>w r. (True, Suc w)),
      scheduleNextUpdate = (\<lambda>w r n b. w),
      getMinAheadTime = (\<lambda>w r n. 9),
      getNextMediaSegment = (\<lambda>w r n. (Some 7, n, False)),
      getInitSegment = (\<lambda>w r. Some 5),
      needsIndex = (\<lambda>w r. True),
      getIndexSegment = (\<lambda>w r. Some 6),
      toChunk = (\<lambda>w sg cm n r. Some mp4Chunk),
      getDisplayTime = (\<lambda>w sg. 0),
      getPlaybackTimeDurationBySegmentNumber = (\<lambda>w r n. Some (0, 4)),
      getSegmentNumberByTime = (\<lambda>w r t. Some 3),
      trackerEvent = (\<lambda>ev w. w),
      formatOfBytes = (\<lambda>bs. Unknown),
      formatOfContentType = (\<lambda>m. if m = ''video/mp4'' then Known 1 else Unknown),
      ts_invalid = 0,
      ts_0 = 1\<rparr>"

text \<open>A tracker on adaptation set 0 that has delivered init and index of segment 10.\<close>

definition playing :: "nat SegmentTracker" where
  "playing =
     \<lparr>current = \<lparr>number = 10, rep = Some 1, init_sent = True, index_sent = False\<rparr>,
      next_pos = \<lparr>number = 10, rep = Some 1, init_sent = True, index_sent = True\<rparr>,
      format = Known 1, initializing = False, first = True, chunkssequence = [],
      adaptationSet = Some 0, events = [], world = 0\<rparr>"

text \<open>The same playlist where representation 2 has no time ahead of the live edge.\<close>

definition liveEdge :: "nat Collaborators" where
  "liveEdge = vod\<lparr>getMinAheadTime := (\<lambda>w r n. if r = 2 then 0 else 9)\<rparr>"

text \<open>
  The same playlist where no segment number translates, and representation 2 needs
  an update.
\<close>

definition unmapped :: "nat Collaborators" where
  "unmapped =
     vod\<lparr>translateSegmentNumber := (\<lambda>w r n from. uint64_max),
         needsUpdate := (\<lambda>w r n. r = 2)\<rparr>"

text \<open>A tracker in the media stage: segment 10 was delivered, segment 11 is next.\<close>

definition streaming :: "nat SegmentTracker" where
  "streaming =
     \<lparr>current = \<lparr>number = 10, rep = Some 1, init_sent = True, index_sent = True\<rparr>,
      next_pos = \<lparr>number = 11, rep = Some 1, init_sent = True, index_sent = True\<rparr>,
      format = Known 1, initializing = False, first = True, chunkssequence = [],
      adaptationSet = Some 0, events = [], world = 0\<rparr>"

text \<open>A tracker after construction and \<open>setStartPosition\<close>.\<close>

definition started :: "nat SegmentTracker" where
  "started =
     \<lparr>current = Position_default, next_pos = Position_at (Some 1) 10,
      format = Unknown, initializing = True, first = True, chunkssequence = [],
      adaptationSet = Some 0, events = [], world = 0\<rparr>"

text \<open>The playlist with a discontinuity (sequence number 3) on every chunk.\<close>

definition spliced :: "nat Collaborators" where
  "spliced =
     vod\<lparr>toChunk := (\<lambda>w sg cm n r.
            Some (mp4Chunk\<lparr>discontinuity := True, discontinuitySequenceNumber := 3\<rparr>))\<rparr>"

text \<open>
  The playlist where the requested segments are gone: the representation substitutes
  the segment five numbers later and reports a gap.
\<close>

definition holed :: "nat Collaborators" where
  "holed = vod\<lparr>getNextMediaSegment := (\<lambda>w r n. (Some 7, n + 5, True))\<rparr>"

text \<open>
  The playlist whose chunks declare no format and whose leading bytes match no
  signature; only the content type tells that they are MP4.
\<close>

definition untyped :: "nat Collaborators" where
  "untyped = vod\<lparr>toChunk := (\<lambda>w sg cm n r. Some (mp4Chunk\<lparr>streamFormat := Unknown\<rparr>))\<rparr>"

text \<open>
  The tracker \<open>playing\<close> with the unsupported format recorded, after one
  \<open>getNextChunk\<close>: the entry prepared for representation 2 is still queued.
\<close>

definition refused :: "nat SegmentTracker" where
  "refused =
     \<lparr>current = \<lparr>number = 10, rep = Some 2, init_sent = False, index_sent = False\<rparr>,
      next_pos = \<lparr>number = 10, rep = Some 2, init_sent = False, index_sent = False\<rparr>,
      format = Unsupported, initializing = True, first = True,
      chunkssequence =
        [\<lparr>chunk = Some mp4Chunk,
          pos = \<lparr>number = 10, rep = Some 2, init_sent = False, index_sent = False\<rparr>,
          duration = 4, starttime = 1, displaytime = 0\<rparr>],
      adaptationSet = Some 0, events = [RepresentationSwitch (Some 1) (Some 2)], world = 0\<rparr>"

text \<open>The playlist whose representations need an update that fails.\<close>

definition stale :: "nat Collaborators" where
  "stale = vod\<lparr>needsUpdate := (\<lambda>w r n. True), runLocalUpdates := (\<lambda>w r. (False, Suc w))\<rparr>"

text \<open>
  A tracker in the media stage whose next segment has the largest number a valid
  position can carry, \<open>2^64 - 2\<close>.
\<close>

definition lastSegment :: "nat SegmentTracker" where
  "lastSegment =
     \<lparr>current = \<lparr>number = 18446744073709551613, rep = Some 1, init_sent = True,
                 index_sent = True\<rparr>,
      next_pos = \<lparr>number = 18446744073709551614, rep = Some 1, init_sent = True,
                  index_sent = True\<rparr>,
      format = Known 1, initializing = False, first = True, chunkssequence = [],
      adaptationSet = Some 0, events = [], world = 0\<rparr>"

text \<open>The playlist whose representations map no time to a segment number.\<close>

definition unseekable :: "nat Collaborators" where
  "unseekable = vod\<lparr>getSegmentNumberByTime := (\<lambda>w r t. None)\<rparr>"

text \<open>The playlist for which the logic has no representation to offer.\<close>

definition deserted :: "nat Collaborators" where
  "deserted = vod\<lparr>getNextRepresentation := (\<lambda>w a cur. None)\<rparr>"

section \<open>Properties\<close>

subsection \<open>Unfolding the definitions\<close>

text \<open>The defining equations, for running the model on the concrete playlist.\<close>

lemmas eval_defs = prepareChunk_def switchCandidate_def translateCandidate_def chunkFrom_def
  initStage_def indexStage_def chunkTimes_def vod_def playing_def Position_isValid_def
  Position_default_def uint64_max_def Let_def ChunkEntry_isValid_def ChunkEntry_of_def
  ChunkEntry_default_def mp4Chunk_def Position_incr_def

lemmas deliver_defs = getNextChunk_def frontEntry_def deliver_def b_gap_def b_switched_def
  b_discontinuity_def announceSwitch_def advanceTo_def probeFormat_def announceFormat_def
  popFront_def endInitializing_def announceSegment_def advanceNext_def notify_def

lemmas call_defs = setStartPosition_def getStartPosition_def setPositionByTime_def
  seekPosition_def seekRefresh_def setPosition_def getPlaybackTime_def resetChunksSequence_def
  reset_def SegmentTracker_new_def Position_at_def

subsection \<open>Position advance\<close>

text \<open>
  C2 (as amended). From a fresh valid position (both flags false, number \<open>start\<close>) the
  advance sets \<open>init_sent\<close>, then \<open>index_sent\<close>, then increments the number: three
  advances give both flags true and number \<open>start + 1\<close>. A fourth gives \<open>start + 2\<close>
  with both flags true provided \<open>start + 1\<close> is not the sentinel; when it is, the
  position has become invalid and the fourth advance leaves it as it is. An advance
  never resets a flag.
\<close>

theorem Position_incr_stage_order:
  "Position_isValid (Position_at r start) \<Longrightarrow>
     Position_incr (Position_at r start) =
       \<lparr>number = start, rep = r, init_sent = True, index_sent = False\<rparr> \<and>
     Position_incr (Position_incr (Position_at r start)) =
       \<lparr>number = start, rep = r, init_sent = True, index_sent = True\<rparr> \<and>
     Position_incr (Position_incr (Position_incr (Position_at r start))) =
       \<lparr>number = start + 1, rep = r, init_sent = True, index_sent = True\<rparr> \<and>
     (start + 1 \<noteq> uint64_max \<longrightarrow>
        Position_incr (Position_incr (Position_incr (Position_incr (Position_at r start)))) =
          \<lparr>number = start + 2, rep = r, init_sent = True, index_sent = True\<rparr>) \<and>
     (start + 1 = uint64_max \<longrightarrow>
        Position_incr (Position_incr (Position_incr (Position_incr (Position_at r start)))) =
          \<lparr>number = start + 1, rep = r, init_sent = True, index_sent = True\<rparr>) \<and>
     (init_sent p \<longrightarrow> init_sent (Position_incr p)) \<and>
     (index_sent p \<longrightarrow> index_sent (Position_incr p))"
  by (simp add: Position_incr_def Position_isValid_def Position_at_def)

theorem Position_incr_stage_order_witness:
  "Position_isValid (Position_at (Some 1) 10) \<and>
   Position_incr (Position_incr (Position_incr (Position_at (Some 1) 10))) =
     \<lparr>number = 11, rep = Some 1, init_sent = True, index_sent = True\<rparr> \<and>
   Position_incr (Position_incr (Position_incr (Position_incr (Position_at (Some 1) 10)))) =
     \<lparr>number = 12, rep = Some 1, init_sent = True, index_sent = True\<rparr>"
proof -
  have valid: "Position_isValid (Position_at (Some 1) 10)"
    by (simp add: Position_isValid_def Position_at_def uint64_max_def)
  have fits: "(10 :: uint64_t) + 1 \<noteq> uint64_max"
    by (simp add: uint64_max_def)
  from Position_incr_stage_order [OF valid] fits have
    "Position_incr (Position_incr (Position_incr (Position_at (Some 1) 10))) =
       \<lparr>number = 10 + 1, rep = Some 1, init_sent = True, index_sent = True\<rparr>"
    "Position_incr (Position_incr (Position_incr (Position_incr (Position_at (Some 1) 10)))) =
       \<lparr>number = 10 + 2, rep = Some 1, init_sent = True, index_sent = True\<rparr>"
    by blast+
  with valid show ?thesis
    by simp
qed

text \<open>
  C2 as stated fails at \<open>start = 2^64 - 2\<close>: the third advance reaches the sentinel
  number, and the fourth does not yield \<open>start + 2\<close>.
\<close>

theorem Position_incr_fourth_counterexample:
  "Position_isValid (Position_at (Some 0) 18446744073709551614) \<and>
   number (Position_incr (Position_incr (Position_incr (Position_incr
     (Position_at (Some 0) 18446744073709551614))))) \<noteq> 18446744073709551614 + 2"
  by (simp add: Position_incr_def Position_isValid_def Position_at_def uint64_max_def)

subsection \<open>Reset\<close>

lemma popAll_Nil: "popAll es = []"
  by (induction es) simp_all

text \<open>
  C10. \<open>reset\<close>, and so the destructor, notifies one \<open>RepresentationSwitch\<close> whose
  \<open>prev\<close> is the representation of \<open>current\<close> as it was before the call (possibly
  null) and whose \<open>next\<close> is null; the listeners see it in the state of the world
  before the call. Then \<open>current\<close>, \<open>next\<close>, the queue and the format are cleared and
  the tracker is initializing again.
\<close>

theorem reset_notifies_switch:
  "events (reset env s) = events s @ [RepresentationSwitch (rep (current s)) None] \<and>
   world (reset env s) =
     trackerEvent env (RepresentationSwitch (rep (current s)) None) (world s) \<and>
   current (reset env s) = Position_default \<and>
   next_pos (reset env s) = Position_default \<and>
   chunkssequence (reset env s) = [] \<and>
   format (reset env s) = Unknown \<and>
   initializing (reset env s) \<and>
   SegmentTracker_delete env s = reset env s"
  by (simp add: reset_def notify_def resetChunksSequence_def popAll_Nil
      SegmentTracker_delete_def)

subsection \<open>Switching in prepareChunk\<close>

lemma rep_Position_incr [simp]: "rep (Position_incr p) = rep p"
  by (simp add: Position_incr_def)

lemma rep_initStage [simp]: "rep (snd (initStage env r p s)) = rep p"
  by (simp add: initStage_def split: option.split)

lemma rep_indexStage [simp]: "rep (snd (indexStage env r sg p s)) = rep p"
  by (simp add: indexStage_def split: option.split)

lemma chunkFrom_rep_or:
  "chunk (chunkFrom env p cm s) = None \<or> rep (pos (chunkFrom env p cm s)) = rep p"
  by (simp add: chunkFrom_def ChunkEntry_default_def ChunkEntry_of_def Let_def case_prod_beta
      split: option.split)

lemma chunkFrom_rep:
  "chunk (chunkFrom env p cm s) \<noteq> None \<Longrightarrow> rep (pos (chunkFrom env p cm s)) = rep p"
  using chunkFrom_rep_or [of env p cm s] by auto

text \<open>
  C4. For a valid input position, when the adaptation set is not segment-aligned, or
  \<open>init_sent\<close> is false, or \<open>index_sent\<close> is false, \<open>prepareChunk\<close> does what it does
  with \<open>switch_allowed = false\<close>: the chunk is prepared from the input position, the
  logic's candidate is not looked at, and a valid entry is on the input position's
  representation.
\<close>

theorem prepareChunk_switch_gate:
  assumes "Position_isValid p" and "adaptationSet s = Some a"
    and "\<not> isSegmentAligned env (world s) a \<or> \<not> init_sent p \<or> \<not> index_sent p"
  shows "prepareChunk env switch_allowed p connManager s =
           prepareChunk env False p connManager s \<and>
         prepareChunk env switch_allowed p connManager s = (chunkFrom env p connManager s, s) \<and>
         (ChunkEntry_isValid (fst (prepareChunk env switch_allowed p connManager s)) \<longrightarrow>
            rep (pos (fst (prepareChunk env switch_allowed p connManager s))) = rep p)"
proof -
  from assms have eq:
    "prepareChunk env sw p connManager s = (chunkFrom env p connManager s, s)" for sw
    by (auto simp: prepareChunk_def)
  show ?thesis
    by (simp add: eq chunkFrom_rep ChunkEntry_isValid_def)
qed

theorem prepareChunk_switch_gate_witness:
  "Position_isValid (current playing) \<and> adaptationSet playing = Some 0 \<and>
   \<not> index_sent (current playing) \<and>
   prepareChunk vod True (current playing) 0 playing =
     prepareChunk vod False (current playing) 0 playing \<and>
   ChunkEntry_isValid (fst (prepareChunk vod True (current playing) 0 playing)) \<and>
   rep (pos (fst (prepareChunk vod True (current playing) 0 playing))) = Some 1 \<and>
   rep (pos (fst (prepareChunk vod True (next_pos playing) 0 playing))) = Some 2"
proof -
  have valid: "Position_isValid (current playing)"
    by (simp add: playing_def Position_isValid_def uint64_max_def)
  have aset: "adaptationSet playing = Some 0"
    by (simp add: playing_def)
  have stage: "\<not> isSegmentAligned vod (world playing) 0 \<or> \<not> init_sent (current playing)
                 \<or> \<not> index_sent (current playing)"
    by (simp add: playing_def)
  have entry: "ChunkEntry_isValid (fst (prepareChunk vod True (current playing) 0 playing))"
    by (simp add: eval_defs)
  have r: "rep (current playing) = Some 1"
    by (simp add: playing_def)
  have idx: "\<not> index_sent (current playing)"
    by (simp add: playing_def)
  note gate = prepareChunk_switch_gate [OF valid aset stage, of True 0]
  from gate have same: "prepareChunk vod True (current playing) 0 playing =
      prepareChunk vod False (current playing) 0 playing"
    by (rule conjunct1)
  from gate entry have
    "rep (pos (fst (prepareChunk vod True (current playing) 0 playing))) = rep (current playing)"
    by blast
  with r have kept:
    "rep (pos (fst (prepareChunk vod True (current playing) 0 playing))) = Some 1"
    by (simp only:)
  have open_gate: "rep (pos (fst (prepareChunk vod True (next_pos playing) 0 playing))) = Some 2"
    by (simp add: eval_defs)
  from valid aset idx same entry kept open_gate show ?thesis
    by blast
qed

text \<open>
  C5. With switching allowed (aligned set, init and index sent) and a candidate \<open>tr\<close>
  other than the input position's representation, let \<open>t\<close> be the candidate position
  after translation, refresh and the one retry, and \<open>s1\<close> the tracker after the
  refresh. If the number of \<open>t\<close> is still the sentinel, or the candidate reports a
  minimum ahead time of 0 at that number, the switch is abandoned: the chunk is
  prepared from the input position (its representation and segment number), and a
  valid entry is on the input position's representation.
\<close>

theorem prepareChunk_switch_abandoned:
  assumes valid: "Position_isValid p"
    and aset: "adaptationSet s = Some a"
    and aligned: "isSegmentAligned env (world s) a"
    and staged: "init_sent p" "index_sent p"
    and cand: "getNextRepresentation env (world s) (Some a) (rep p) = Some tr"
      "Some tr \<noteq> rep p"
    and tr: "translateCandidate env (Position_default\<lparr>rep := Some tr\<rparr>) tr p s = (t, s1)"
    and abandon: "number t = uint64_max \<or> getMinAheadTime env (world s1) tr (number t) = 0"
  shows "prepareChunk env True p connManager s = (chunkFrom env p connManager s1, s1) \<and>
         (ChunkEntry_isValid (fst (prepareChunk env True p connManager s)) \<longrightarrow>
            rep (pos (fst (prepareChunk env True p connManager s))) = rep p)"
proof -
  have sw: "switchCandidate env p s = (p, s1)"
    using cand tr abandon aset
    by (auto simp: switchCandidate_def Let_def Position_isValid_def Position_default_def)
  have eq: "prepareChunk env True p connManager s = (chunkFrom env p connManager s1, s1)"
    using valid aset aligned staged by (simp add: prepareChunk_def sw)
  show ?thesis
    by (simp add: eq chunkFrom_rep ChunkEntry_isValid_def)
qed

theorem prepareChunk_switch_abandoned_witness:
  "Position_isValid (next_pos playing) \<and>
   getNextRepresentation liveEdge (world playing) (Some 0) (rep (next_pos playing)) = Some 2 \<and>
   getMinAheadTime liveEdge (world playing) 2 10 = 0 \<and>
   prepareChunk liveEdge True (next_pos playing) 0 playing =
     (chunkFrom liveEdge (next_pos playing) 0 playing, playing) \<and>
   ChunkEntry_isValid (fst (prepareChunk liveEdge True (next_pos playing) 0 playing)) \<and>
   rep (pos (fst (prepareChunk liveEdge True (next_pos playing) 0 playing))) = Some 1 \<and>
   translateCandidate unmapped (Position_default\<lparr>rep := Some 2\<rparr>) 2 (next_pos playing) playing =
     (Position_default\<lparr>rep := Some 2\<rparr>, playing\<lparr>world := 1\<rparr>) \<and>
   prepareChunk unmapped True (next_pos playing) 0 playing =
     (chunkFrom unmapped (next_pos playing) 0 (playing\<lparr>world := 1\<rparr>), playing\<lparr>world := 1\<rparr>)"
proof -
  have valid: "Position_isValid (next_pos playing)"
    by (simp add: playing_def Position_isValid_def uint64_max_def)
  have aset: "adaptationSet playing = Some 0"
    by (simp add: playing_def)
  have aligned: "isSegmentAligned liveEdge (world playing) 0"
    by (simp add: liveEdge_def vod_def)
  have staged: "init_sent (next_pos playing)" "index_sent (next_pos playing)"
    by (simp_all add: playing_def)
  have cand:
    "getNextRepresentation liveEdge (world playing) (Some 0) (rep (next_pos playing)) = Some 2"
    "Some 2 \<noteq> rep (next_pos playing)"
    by (simp_all add: liveEdge_def vod_def playing_def)
  have tr:
    "translateCandidate liveEdge (Position_default\<lparr>rep := Some 2\<rparr>) 2 (next_pos playing) playing
       = (\<lparr>number = 10, rep = Some 2, init_sent = False, index_sent = False\<rparr>, playing)"
    by (simp add: eval_defs liveEdge_def)
  have ahead: "getMinAheadTime liveEdge (world playing) 2 10 = 0"
    by (simp add: liveEdge_def vod_def)
  have abandon:
    "number \<lparr>number = 10, rep = Some 2, init_sent = False, index_sent = False\<rparr> = uint64_max \<or>
     getMinAheadTime liveEdge (world playing) 2
       (number \<lparr>number = 10 :: uint64_t, rep = Some (2::nat), init_sent = False,
                index_sent = False\<rparr>) = 0"
    using ahead by simp
  have entry:
    "ChunkEntry_isValid (fst (prepareChunk liveEdge True (next_pos playing) 0 playing))"
    by (simp add: eval_defs liveEdge_def)
  have r: "rep (next_pos playing) = Some 1"
    by (simp add: playing_def)
  note kept = prepareChunk_switch_abandoned [OF valid aset aligned staged cand tr abandon, of 0]
  from kept have orig: "prepareChunk liveEdge True (next_pos playing) 0 playing =
      (chunkFrom liveEdge (next_pos playing) 0 playing, playing)"
    by (rule conjunct1)
  from kept entry have
    "rep (pos (fst (prepareChunk liveEdge True (next_pos playing) 0 playing))) =
       rep (next_pos playing)"
    by blast
  with r have same:
    "rep (pos (fst (prepareChunk liveEdge True (next_pos playing) 0 playing))) = Some 1"
    by (simp only:)
  have aligned2: "isSegmentAligned unmapped (world playing) 0"
    by (simp add: unmapped_def vod_def)
  have cand2:
    "getNextRepresentation unmapped (world playing) (Some 0) (rep (next_pos playing)) = Some 2"
    by (simp add: unmapped_def vod_def playing_def)
  have tr2:
    "translateCandidate unmapped (Position_default\<lparr>rep := Some 2\<rparr>) 2 (next_pos playing) playing =
       (Position_default\<lparr>rep := Some 2\<rparr>, playing\<lparr>world := 1\<rparr>)"
    by (simp add: eval_defs unmapped_def)
  have abandon2:
    "number (Position_default\<lparr>rep := Some 2\<rparr>) = uint64_max \<or>
     getMinAheadTime unmapped (world (playing\<lparr>world := 1\<rparr>)) 2
       (number (Position_default\<lparr>rep := Some 2\<rparr>)) = 0"
    by (simp add: Position_default_def)
  note kept2 =
    prepareChunk_switch_abandoned [OF valid aset aligned2 staged cand2 cand(2) tr2 abandon2, of 0]
  from kept2 have orig2: "prepareChunk unmapped True (next_pos playing) 0 playing =
      (chunkFrom unmapped (next_pos playing) 0 (playing\<lparr>world := 1\<rparr>), playing\<lparr>world := 1\<rparr>)"
    by (rule conjunct1)
  from valid cand(1) ahead orig entry same tr2 orig2 show ?thesis
    by blast
qed

subsection \<open>The stages of getNextChunk\<close>

text \<open>What each stage does to the fields of the tracker and to the event sequence.\<close>

lemma announceSwitch_simps [simp]:
  "events (announceSwitch env e s) =
     events s @ (if b_switched s e
                 then [RepresentationSwitch (rep (next_pos s)) (rep (pos e))] else [])"
  "format (announceSwitch env e s) = format s"
  "initializing (announceSwitch env e s) = (initializing s \<or> b_switched s e)"
  "chunkssequence (announceSwitch env e s) = chunkssequence s"
  "adaptationSet (announceSwitch env e s) = adaptationSet s"
  "current (announceSwitch env e s) = current s"
  "next_pos (announceSwitch env e s) = next_pos s"
  by (simp_all add: announceSwitch_def notify_def)

lemma advanceTo_simps [simp]:
  "events (advanceTo e s) = events s"
  "format (advanceTo e s) = format s"
  "initializing (advanceTo e s) = initializing s"
  "chunkssequence (advanceTo e s) = chunkssequence s"
  "adaptationSet (advanceTo e s) = adaptationSet s"
  "current (advanceTo e s) = pos e"
  "next_pos (advanceTo e s) = pos e"
  by (simp_all add: advanceTo_def)

lemma probeFormat_simps [simp]:
  "events (snd (snd (probeFormat env c s))) = events s"
  "initializing (snd (snd (probeFormat env c s))) = initializing s"
  "chunkssequence (snd (snd (probeFormat env c s))) = chunkssequence s"
  "adaptationSet (snd (snd (probeFormat env c s))) = adaptationSet s"
  "current (snd (snd (probeFormat env c s))) = current s"
  "next_pos (snd (snd (probeFormat env c s))) = next_pos s"
  "discontinuity (unwrapped (fst (probeFormat env c s))) = discontinuity c"
  "discontinuitySequenceNumber (unwrapped (fst (probeFormat env c s))) =
     discontinuitySequenceNumber c"
  by (simp_all add: probeFormat_def Let_def)

lemma announceFormat_simps [simp]:
  "events (announceFormat env cf s) =
     events s @ (if cf \<noteq> format s \<and> cf \<noteq> Unknown then [FormatChange cf] else [])"
  "initializing (announceFormat env cf s) = initializing s"
  "chunkssequence (announceFormat env cf s) = chunkssequence s"
  "adaptationSet (announceFormat env cf s) = adaptationSet s"
  "current (announceFormat env cf s) = current s"
  "next_pos (announceFormat env cf s) = next_pos s"
  by (simp_all add: announceFormat_def notify_def)

lemma popFront_simps [simp]:
  "events (popFront s) = events s"
  "format (popFront s) = format s"
  "initializing (popFront s) = initializing s"
  "chunkssequence (popFront s) = tl (chunkssequence s)"
  "adaptationSet (popFront s) = adaptationSet s"
  "current (popFront s) = current s"
  "next_pos (popFront s) = next_pos s"
  by (simp_all add: popFront_def)

lemma endInitializing_simps [simp]:
  "fst (endInitializing gap s) = (gap \<and> \<not> initializing s)"
  "events (snd (endInitializing gap s)) = events s"
  "format (snd (endInitializing gap s)) = format s"
  "initializing (snd (endInitializing gap s)) = False"
  "chunkssequence (snd (endInitializing gap s)) = chunkssequence s"
  "adaptationSet (snd (endInitializing gap s)) = adaptationSet s"
  "current (snd (endInitializing gap s)) = current s"
  "next_pos (snd (endInitializing gap s)) = next_pos s"
  by (simp_all add: endInitializing_def)

lemma announceSegment_simps [simp]:
  "format (announceSegment env e dsn gap disc s) = format s"
  "initializing (announceSegment env e dsn gap disc s) = initializing s"
  "chunkssequence (announceSegment env e dsn gap disc s) = chunkssequence s"
  "adaptationSet (announceSegment env e dsn gap disc s) = adaptationSet s"
  "current (announceSegment env e dsn gap disc s) = current s"
  "next_pos (announceSegment env e dsn gap disc s) = next_pos s"
  by (simp_all add: announceSegment_def notify_def Let_def split: option.split)

lemma announceSegment_events:
  "\<exists>i. events (announceSegment env e dsn gap disc s) =
     events s @ (if gap then [SegmentGap] else []) @ (if disc then [Discontinuity dsn] else []) @
     (case adaptationSet s of
        None \<Rightarrow> []
      | Some a \<Rightarrow> [SegmentChange i dsn (starttime e) (duration e) (displaytime e)])"
  by (simp add: announceSegment_def notify_def Let_def split: option.split)

lemma advanceNext_simps [simp]:
  "events (advanceNext gap s) = events s"
  "format (advanceNext gap s) = format s"
  "initializing (advanceNext gap s) = initializing s"
  "chunkssequence (advanceNext gap s) = chunkssequence s"
  "adaptationSet (advanceNext gap s) = adaptationSet s"
  "current (advanceNext gap s) = current s"
  "next_pos (advanceNext gap s) = (if gap then next_pos s else Position_incr (next_pos s))"
  by (simp_all add: advanceNext_def)

lemma deliver_None: "fst (deliver env e c s) = None \<longleftrightarrow> format s = Unsupported"
  by (simp add: deliver_def Let_def case_prod_beta)

lemma deliver_unsupported:
  "format s = Unsupported \<Longrightarrow> deliver env e c s = (None, advanceTo e (announceSwitch env e s))"
  by (simp add: deliver_def Let_def)

lemma deliver_positions:
  "current (snd (deliver env e c s)) = pos e"
  "format s \<noteq> Unsupported \<Longrightarrow>
     next_pos (snd (deliver env e c s)) =
       (if b_gap s e \<and> \<not> initializing s \<and> \<not> b_switched s e then pos e
        else Position_incr (pos e))"
  "format s \<noteq> Unsupported \<Longrightarrow>
     discontinuity (unwrapped (the (fst (deliver env e c s)))) = discontinuity c"
  by (simp_all add: deliver_def Let_def case_prod_beta)

lemma deliver_chunk:
  assumes "format s \<noteq> Unsupported"
  shows "discontinuity (unwrapped (the (fst (deliver env e c s)))) = discontinuity c \<and>
         discontinuitySequenceNumber (unwrapped (the (fst (deliver env e c s)))) =
           discontinuitySequenceNumber c"
  using assms by (simp add: deliver_def Let_def case_prod_beta)

lemma deliver_events:
  assumes "format s \<noteq> Unsupported"
  shows "\<exists>fc i. emitted s (snd (deliver env e c s)) =
     (if b_switched s e then [RepresentationSwitch (rep (next_pos s)) (rep (pos e))] else []) @
     map FormatChange fc @
     (if b_gap s e \<and> \<not> initializing s \<and> \<not> b_switched s e then [SegmentGap] else []) @
     (if b_discontinuity s c then [Discontinuity (discontinuitySequenceNumber c)] else []) @
     (case adaptationSet s of
        None \<Rightarrow> []
      | Some a \<Rightarrow> [SegmentChange i (discontinuitySequenceNumber c)
                     (starttime e) (duration e) (displaytime e)])"
proof -
  define s2 where "s2 = advanceTo e (announceSwitch env e s)"
  define cf where "cf = fst (snd (probeFormat env c s2))"
  define s3 where "s3 = snd (snd (probeFormat env c s2))"
  define s5 where "s5 = popFront (announceFormat env cf s3)"
  define gap1 where "gap1 = fst (endInitializing (b_gap s e) s5)"
  define s6 where "s6 = snd (endInitializing (b_gap s e) s5)"
  define s9 where "s9 = announceSegment env e (discontinuitySequenceNumber c) gap1
     (b_discontinuity s c) s6"
  have res: "snd (deliver env e c s) = advanceNext gap1 s9"
    using assms
    by (simp add: deliver_def Let_def case_prod_beta s2_def cf_def s3_def s5_def gap1_def
        s6_def s9_def)
  have gap1: "gap1 = (b_gap s e \<and> \<not> initializing s \<and> \<not> b_switched s e)"
    by (auto simp: gap1_def s5_def s3_def s2_def)
  have ev5: "events s6 = events s @
      (if b_switched s e then [RepresentationSwitch (rep (next_pos s)) (rep (pos e))] else []) @
      map FormatChange (if cf \<noteq> format s3 \<and> cf \<noteq> Unknown then [cf] else [])"
    by (simp add: s6_def s5_def s3_def s2_def)
  have aset: "adaptationSet s6 = adaptationSet s"
    by (simp add: s6_def s5_def s3_def s2_def)
  from announceSegment_events [of env e "discontinuitySequenceNumber c" gap1 "b_discontinuity s c" s6]
  obtain i where "events s9 = events s6 @ (if gap1 then [SegmentGap] else []) @
      (if b_discontinuity s c then [Discontinuity (discontinuitySequenceNumber c)] else []) @
      (case adaptationSet s of
         None \<Rightarrow> []
       | Some a \<Rightarrow> [SegmentChange i (discontinuitySequenceNumber c)
                      (starttime e) (duration e) (displaytime e)])"
    unfolding s9_def aset by blast
  then have "emitted s (snd (deliver env e c s)) =
     (if b_switched s e then [RepresentationSwitch (rep (next_pos s)) (rep (pos e))] else []) @
     map FormatChange (if cf \<noteq> format s3 \<and> cf \<noteq> Unknown then [cf] else []) @
     (if b_gap s e \<and> \<not> initializing s \<and> \<not> b_switched s e then [SegmentGap] else []) @
     (if b_discontinuity s c then [Discontinuity (discontinuitySequenceNumber c)] else []) @
     (case adaptationSet s of
        None \<Rightarrow> []
      | Some a \<Rightarrow> [SegmentChange i (discontinuitySequenceNumber c)
                     (starttime e) (duration e) (displaytime e)])"
    unfolding emitted_def res gap1 [symmetric] by (simp add: ev5)
  then show ?thesis by blast
qed

subsection \<open>The front entry\<close>

text \<open>
  Preparing a chunk from a valid position only changes the state of the world, so
  the front entry is computed without touching the tracker's own fields.
\<close>

lemma switchCandidate_frame:
  "snd (switchCandidate env p s) = s\<lparr>world := world (snd (switchCandidate env p s))\<rparr>"
  by (simp add: switchCandidate_def translateCandidate_def Let_def case_prod_beta
      split: option.split)

lemma prepareChunk_frame:
  assumes "Position_isValid p"
  shows "snd (prepareChunk env sw p cm s) =
           s\<lparr>world := world (snd (prepareChunk env sw p cm s))\<rparr>"
  using assms switchCandidate_frame [of env p s]
  by (simp add: prepareChunk_def Let_def case_prod_beta split: option.split)

lemma frontEntry_frame:
  assumes "frontEntry env sw cm s = Some (e, s1)"
  shows "adaptationSet s \<noteq> None \<and> Position_isValid (next_pos s) \<and>
         current s1 = current s \<and> next_pos s1 = next_pos s \<and> format s1 = format s \<and>
         initializing s1 = initializing s \<and> adaptationSet s1 = adaptationSet s \<and>
         events s1 = events s \<and> first s1 = first s"
proof -
  from assms have pre: "adaptationSet s \<noteq> None" "Position_isValid (next_pos s)"
    by (auto simp: frontEntry_def split: if_splits)
  obtain w where w: "snd (prepareChunk env sw (next_pos s) cm s) = s\<lparr>world := w\<rparr>"
    using prepareChunk_frame [OF pre(2), of env sw cm s] by blast
  have "s1 = s \<or> s1 = s\<lparr>world := w, chunkssequence := chunkssequence s @
      [fst (prepareChunk env sw (next_pos s) cm s)]\<rparr>"
    using assms pre w
    by (auto simp: frontEntry_def Let_def case_prod_beta split: if_splits list.splits)
  with pre show ?thesis by auto
qed

lemma getNextChunk_Some:
  assumes "getNextChunk env sw cm s = (Some rc, s')"
  shows "\<exists>e c s1. frontEntry env sw cm s = Some (e, s1) \<and> chunk e = Some c \<and>
           Position_isValid (pos e) \<and> format s \<noteq> Unsupported \<and>
           deliver env e c s1 = (Some rc, s')"
proof -
  from assms obtain e s1 where fe: "frontEntry env sw cm s = Some (e, s1)"
    by (auto simp: getNextChunk_def split: option.splits)
  with assms obtain c where c: "chunk e = Some c" "Position_isValid (pos e)"
      "deliver env e c s1 = (Some rc, s')"
    by (auto simp: getNextChunk_def split: option.splits if_splits)
  from c(3) have "fst (deliver env e c s1) \<noteq> None" by simp
  then have "format s1 \<noteq> Unsupported" by (simp add: deliver_None)
  with frontEntry_frame [OF fe] have "format s \<noteq> Unsupported" by simp
  with fe c show ?thesis by blast
qed

lemma Position_incr_moves: "Position_isValid p \<Longrightarrow> Position_incr p \<noteq> p"
proof -
  assume v: "Position_isValid p"
  have "number (p\<lparr>number := number p + 1\<rparr>) \<noteq> number p" by simp
  then have a: "p\<lparr>number := number p + 1\<rparr> \<noteq> p" by metis
  have "\<not> index_sent p \<Longrightarrow> index_sent (p\<lparr>index_sent := True\<rparr>) \<noteq> index_sent p" by simp
  then have b: "\<not> index_sent p \<Longrightarrow> p\<lparr>index_sent := True\<rparr> \<noteq> p" by metis
  have "\<not> init_sent p \<Longrightarrow> init_sent (p\<lparr>init_sent := True\<rparr>) \<noteq> init_sent p" by simp
  then have c: "\<not> init_sent p \<Longrightarrow> p\<lparr>init_sent := True\<rparr> \<noteq> p" by metis
  from v a b c show ?thesis by (simp add: Position_incr_def)
qed

lemma Position_incr_valid:
  "Position_isValid p \<Longrightarrow>
     Position_isValid (Position_incr p) \<longleftrightarrow> \<not> index_sent p \<or> number p + 1 \<noteq> uint64_max"
  by (simp add: Position_incr_def Position_isValid_def)

subsection \<open>What the calls keep\<close>

text \<open>
  No call but \<open>reset\<close> and a delivering \<open>getNextChunk\<close> writes the recorded format, and
  only a delivering \<open>getNextChunk\<close> leaves the initializing state.
\<close>

lemma getStartPosition_fields:
  "format (snd (getStartPosition env s)) = format s \<and>
   initializing (snd (getStartPosition env s)) = initializing s"
  by (simp add: getStartPosition_def notify_def Let_def case_prod_beta split: option.split)

lemma seekRefresh_fields:
  "format (snd (seekRefresh env r n s)) = format s \<and>
   initializing (snd (seekRefresh env r n s)) = initializing s"
  by (simp add: seekRefresh_def notify_def case_prod_beta)

lemma setPosition_fields:
  "format (setPosition env p restarted s) = format s \<and>
   initializing (setPosition env p restarted s) = (restarted \<or> initializing s)"
  by (simp add: setPosition_def notify_def resetChunksSequence_def Let_def)

lemma setPositionByTime_fields:
  "format (snd (setPositionByTime env t restarted tryonly s)) = format s \<and>
   (initializing s \<longrightarrow> initializing (snd (setPositionByTime env t restarted tryonly s)))"
proof (cases "rep (seekPosition env s)")
  case None
  then show ?thesis by (simp add: setPositionByTime_def Let_def)
next
  case (Some r)
  obtain ok s1 where sr: "seekRefresh env r (number (seekPosition env s)) s = (ok, s1)"
    by (cases "seekRefresh env r (number (seekPosition env s)) s")
  with seekRefresh_fields [of env r "number (seekPosition env s)" s]
  have s1: "format s1 = format s" "initializing s1 = initializing s" by simp_all
  show ?thesis
    using Some sr s1
    by (simp add: setPositionByTime_def Let_def setPosition_fields split: option.split bool.split)
qed

lemma setStartPosition_fields:
  "format (snd (setStartPosition env s)) = format s \<and>
   initializing (snd (setStartPosition env s)) = initializing s"
  using getStartPosition_fields [of env s]
  by (simp add: setStartPosition_def Let_def case_prod_beta)

lemma getNextChunk_None:
  assumes "fst (getNextChunk env sw cm s) = None"
  shows "format (snd (getNextChunk env sw cm s)) = format s \<and>
         (initializing s \<longrightarrow> initializing (snd (getNextChunk env sw cm s)))"
proof (cases "frontEntry env sw cm s")
  case None
  then show ?thesis by (simp add: getNextChunk_def)
next
  case (Some a)
  then obtain e s1 where fe: "frontEntry env sw cm s = Some (e, s1)"
    by (cases a) simp
  note fr = frontEntry_frame [OF fe]
  show ?thesis
  proof (cases "chunk e \<noteq> None \<and> Position_isValid (pos e)")
    case False
    with fe fr show ?thesis
      by (auto simp: getNextChunk_def split: option.split)
  next
    case True
    then obtain c where c: "chunk e = Some c" by auto
    with True fe have g: "getNextChunk env sw cm s = deliver env e c s1"
      by (simp add: getNextChunk_def)
    with assms have "format s1 = Unsupported"
      by (simp add: deliver_None)
    then have "deliver env e c s1 = (None, advanceTo e (announceSwitch env e s1))"
      by (rule deliver_unsupported)
    with g fr show ?thesis by simp
  qed
qed

lemma getNextChunk_unsupported:
  assumes "format s = Unsupported"
  shows "fst (getNextChunk env sw cm s) = None"
proof (cases "fst (getNextChunk env sw cm s)")
  case None
  then show ?thesis .
next
  case (Some rc)
  then have "getNextChunk env sw cm s = (Some rc, snd (getNextChunk env sw cm s))"
    by (metis prod.collapse)
  from getNextChunk_Some [OF this] assms show ?thesis by blast
qed

lemma call_unsupported:
  assumes "format s = Unsupported" and "c \<noteq> Reset"
  shows "format (snd (call env c s)) = Unsupported \<and>
         (\<forall>x. fst (call env c s) \<noteq> Returned (Some x))"
proof (cases c)
  case (GetNextChunk sw cm)
  from getNextChunk_unsupported [OF assms(1), of env sw cm]
  have n: "fst (getNextChunk env sw cm s) = None" .
  from getNextChunk_None [OF n] assms(1) n GetNextChunk show ?thesis
    by (simp add: case_prod_beta)
next
  case (SetPositionByTime t r y)
  with setPositionByTime_fields [of env t r y s] assms(1) show ?thesis
    by (simp add: case_prod_beta)
next
  case (SetPosition p r)
  with setPosition_fields [of env p r s] assms(1) show ?thesis by simp
next
  case SetStartPosition
  with setStartPosition_fields [of env s] assms(1) show ?thesis
    by (simp add: case_prod_beta)
next
  case Reset
  with assms(2) show ?thesis by simp
qed

lemma run_unsupported:
  "format s = Unsupported \<Longrightarrow> Reset \<notin> set cs \<Longrightarrow>
     format (snd (run env cs s)) = Unsupported \<and>
     (\<forall>r \<in> set (fst (run env cs s)). \<forall>x. r \<noteq> Returned (Some x))"
proof (induction cs arbitrary: s)
  case Nil
  then show ?case by simp
next
  case (Cons c cs)
  from Cons.prems have c: "c \<noteq> Reset" and cs: "Reset \<notin> set cs" by auto
  note step = call_unsupported [OF Cons.prems(1) c, of env]
  from Cons.IH [of "snd (call env c s)"] step cs
  show ?case by (simp add: case_prod_beta)
qed

lemma call_initializing:
  assumes "initializing s" and "\<forall>x. fst (call env c s) \<noteq> Returned (Some x)"
  shows "initializing (snd (call env c s))"
proof (cases c)
  case (GetNextChunk sw cm)
  with assms(2) have "fst (getNextChunk env sw cm s) = None"
    by (cases "fst (getNextChunk env sw cm s)") (simp_all add: case_prod_beta)
  from getNextChunk_None [OF this] assms(1) GetNextChunk show ?thesis
    by (simp add: case_prod_beta)
next
  case (SetPositionByTime t r y)
  with setPositionByTime_fields [of env t r y s] assms(1) show ?thesis
    by (simp add: case_prod_beta)
next
  case (SetPosition p r)
  with setPosition_fields [of env p r s] assms(1) show ?thesis by simp
next
  case SetStartPosition
  with setStartPosition_fields [of env s] assms(1) show ?thesis
    by (simp add: case_prod_beta)
next
  case Reset
  then show ?thesis
    by (simp add: reset_def notify_def resetChunksSequence_def Let_def)
qed

lemma run_initializing:
  "initializing s \<Longrightarrow> \<forall>r \<in> set (fst (run env cs s)). \<forall>x. r \<noteq> Returned (Some x) \<Longrightarrow>
     initializing (snd (run env cs s))"
proof (induction cs arbitrary: s)
  case Nil
  then show ?case by simp
next
  case (Cons c cs)
  from Cons.prems(2) have h: "\<forall>x. fst (call env c s) \<noteq> Returned (Some x)"
    and t: "\<forall>r \<in> set (fst (run env cs (snd (call env c s)))). \<forall>x. r \<noteq> Returned (Some x)"
    by (simp_all add: case_prod_beta)
  from call_initializing [OF Cons.prems(1) h]
  have "initializing (snd (call env c s))" .
  from Cons.IH [OF this t] show ?case
    by (simp add: case_prod_beta)
qed

subsection \<open>Delivery\<close>

text \<open>
  A call that returns a chunk delivered a valid front entry, and the events of the
  call are, in this order: the switch, the format change, the gap, the
  discontinuity, the segment change.
\<close>

lemma getNextChunk_delivered:
  assumes "getNextChunk env sw cm s = (Some rc, s')"
  shows "\<exists>e c s1 fc i.
     frontEntry env sw cm s = Some (e, s1) \<and> chunk e = Some c \<and>
     Position_isValid (pos e) \<and> format s1 \<noteq> Unsupported \<and>
     deliver env e c s1 = (Some rc, s') \<and>
     b_gap s1 e = b_gap s e \<and> b_switched s1 e = b_switched s e \<and>
     b_discontinuity s1 c = b_discontinuity s c \<and> initializing s1 = initializing s \<and>
     emitted s s' =
       (if b_switched s e then [RepresentationSwitch (rep (next_pos s)) (rep (pos e))]
        else []) @
       map FormatChange fc @
       (if b_gap s e \<and> \<not> initializing s \<and> \<not> b_switched s e then [SegmentGap] else []) @
       (if b_discontinuity s c then [Discontinuity (discontinuitySequenceNumber c)] else []) @
       (case adaptationSet s of
          None \<Rightarrow> []
        | Some a \<Rightarrow> [SegmentChange i (discontinuitySequenceNumber c)
                       (starttime e) (duration e) (displaytime e)])"
proof -
  from getNextChunk_Some [OF assms] obtain e c s1 where
    fe: "frontEntry env sw cm s = Some (e, s1)" and
    c: "chunk e = Some c" and v: "Position_isValid (pos e)" and
    f: "format s \<noteq> Unsupported" and d: "deliver env e c s1 = (Some rc, s')"
    by blast
  note fr = frontEntry_frame [OF fe]
  from fr f have f1: "format s1 \<noteq> Unsupported" by simp
  from d have s': "s' = snd (deliver env e c s1)" by simp
  from fr have flags: "b_gap s1 e = b_gap s e" "b_switched s1 e = b_switched s e"
      "b_discontinuity s1 c = b_discontinuity s c" "initializing s1 = initializing s"
    by (simp_all add: b_gap_def b_switched_def b_discontinuity_def)
  from fr have em: "emitted s s' = emitted s1 s'"
    by (simp add: emitted_def)
  from fr have same: "next_pos s1 = next_pos s" "adaptationSet s1 = adaptationSet s"
    by simp_all
  from deliver_events [OF f1, of env e c] obtain fc i where
    "emitted s1 (snd (deliver env e c s1)) =
       (if b_switched s1 e then [RepresentationSwitch (rep (next_pos s1)) (rep (pos e))]
        else []) @
       map FormatChange fc @
       (if b_gap s1 e \<and> \<not> initializing s1 \<and> \<not> b_switched s1 e then [SegmentGap] else []) @
       (if b_discontinuity s1 c then [Discontinuity (discontinuitySequenceNumber c)] else []) @
       (case adaptationSet s1 of
          None \<Rightarrow> []
        | Some a \<Rightarrow> [SegmentChange i (discontinuitySequenceNumber c)
                       (starttime e) (duration e) (displaytime e)])"
    by blast
  then have
    "emitted s s' =
       (if b_switched s e then [RepresentationSwitch (rep (next_pos s)) (rep (pos e))]
        else []) @
       map FormatChange fc @
       (if b_gap s e \<and> \<not> initializing s \<and> \<not> b_switched s e then [SegmentGap] else []) @
       (if b_discontinuity s c then [Discontinuity (discontinuitySequenceNumber c)] else []) @
       (case adaptationSet s of
          None \<Rightarrow> []
        | Some a \<Rightarrow> [SegmentChange i (discontinuitySequenceNumber c)
                       (starttime e) (duration e) (displaytime e)])"
    unfolding em unfolding s' flags same .
  with fe c v f1 d flags show ?thesis by blast
qed

lemma getNextChunk_gap:
  assumes "getNextChunk env sw cm s = (Some rc, s')"
    and "frontEntry env sw cm s = Some (e, s1)"
  shows "SegmentGap \<in> set (emitted s s') \<longleftrightarrow>
           b_gap s e \<and> \<not> initializing s \<and> \<not> b_switched s e"
proof -
  from getNextChunk_delivered [OF assms(1)] assms(2) obtain c fc i where
    "emitted s s' =
       (if b_switched s e then [RepresentationSwitch (rep (next_pos s)) (rep (pos e))]
        else []) @
       map FormatChange fc @
       (if b_gap s e \<and> \<not> initializing s \<and> \<not> b_switched s e then [SegmentGap] else []) @
       (if b_discontinuity s c then [Discontinuity (discontinuitySequenceNumber c)] else []) @
       (case adaptationSet s of
          None \<Rightarrow> []
        | Some a \<Rightarrow> [SegmentChange i (discontinuitySequenceNumber c)
                       (starttime e) (duration e) (displaytime e)])"
    by auto
  then show ?thesis
    by (auto split: option.splits)
qed

text \<open>
  C1 (as amended). When \<open>getNextChunk\<close> returns a chunk, it delivered a valid front
  entry \<open>e\<close>; at return \<open>current\<close> is the position of \<open>e\<close> and is valid (line 397
  sets both cursors to it). \<open>next\<close> is that position advanced by one stage, which
  is a different position, unless a gap was notified in this call; then \<open>next\<close> is
  the position of \<open>e\<close> too. A gap is notified when the delivered number differs from
  the requested one outside the initializing state and without a switch. \<open>next\<close> is
  valid at return except when it was advanced from a position in the media stage
  whose number is \<open>2^64 - 2\<close>: the increment reaches the sentinel.
\<close>

theorem getNextChunk_cursors:
  assumes "getNextChunk env switch_allowed connManager s = (Some rc, s')"
  shows "\<exists>e s1. frontEntry env switch_allowed connManager s = Some (e, s1) \<and>
           ChunkEntry_isValid e \<and>
           Position_isValid (current s') \<and> current s' = pos e \<and>
           next_pos s' =
             (if SegmentGap \<in> set (emitted s s') then pos e else Position_incr (pos e)) \<and>
           Position_incr (pos e) \<noteq> pos e \<and>
           (SegmentGap \<in> set (emitted s s') \<longleftrightarrow>
              number (next_pos s) \<noteq> number (pos e) \<and> \<not> initializing s \<and>
              rep (next_pos s) = rep (pos e) \<and> rep (current s) \<noteq> None) \<and>
           (Position_isValid (next_pos s') \<longleftrightarrow>
              SegmentGap \<in> set (emitted s s') \<or> \<not> index_sent (pos e) \<or>
              number (pos e) + 1 \<noteq> uint64_max)"
proof -
  from getNextChunk_delivered [OF assms] obtain e c s1 where
    fe: "frontEntry env switch_allowed connManager s = Some (e, s1)" and
    c: "chunk e = Some c" and v: "Position_isValid (pos e)" and
    f1: "format s1 \<noteq> Unsupported" and d: "deliver env e c s1 = (Some rc, s')" and
    flags: "b_gap s1 e = b_gap s e" "b_switched s1 e = b_switched s e"
      "initializing s1 = initializing s"
    by blast
  from d have s': "s' = snd (deliver env e c s1)" by simp
  note gap = getNextChunk_gap [OF assms fe]
  have cur: "current s' = pos e"
    unfolding s' by (rule deliver_positions(1))
  have nxt: "next_pos s' =
      (if SegmentGap \<in> set (emitted s s') then pos e else Position_incr (pos e))"
    unfolding gap unfolding s' deliver_positions(2) [OF f1] flags by simp
  have valid: "ChunkEntry_isValid e"
    using c v by (simp add: ChunkEntry_isValid_def)
  have gap': "SegmentGap \<in> set (emitted s s') \<longleftrightarrow>
      number (next_pos s) \<noteq> number (pos e) \<and> \<not> initializing s \<and>
      rep (next_pos s) = rep (pos e) \<and> rep (current s) \<noteq> None"
    unfolding gap by (auto simp: b_gap_def b_switched_def)
  have nv: "Position_isValid (next_pos s') \<longleftrightarrow>
      SegmentGap \<in> set (emitted s s') \<or> \<not> index_sent (pos e) \<or>
      number (pos e) + 1 \<noteq> uint64_max"
    unfolding nxt using v Position_incr_valid [OF v] by simp
  from fe valid v cur nxt Position_incr_moves [OF v] gap' nv show ?thesis
    by simp
qed

theorem getNextChunk_cursors_witness:
  "getNextChunk holed False 0 streaming =
     (Some (PlainChunk mp4Chunk),
      streaming\<lparr>current := \<lparr>number = 16, rep = Some 1, init_sent = True, index_sent = True\<rparr>,
                next_pos := \<lparr>number = 16, rep = Some 1, init_sent = True, index_sent = True\<rparr>,
                events := [SegmentGap, SegmentChange 0 0 1 4 0]\<rparr>) \<and>
   getNextChunk vod False 0 streaming =
     (Some (PlainChunk mp4Chunk),
      streaming\<lparr>current := \<lparr>number = 11, rep = Some 1, init_sent = True, index_sent = True\<rparr>,
                next_pos := \<lparr>number = 12, rep = Some 1, init_sent = True, index_sent = True\<rparr>,
                events := [SegmentChange 0 0 1 4 0]\<rparr>) \<and>
   Position_isValid \<lparr>number = 16, rep = Some 1, init_sent = True, index_sent = True\<rparr> \<and>
   Position_isValid \<lparr>number = 11, rep = Some 1, init_sent = True, index_sent = True\<rparr> \<and>
   Position_isValid \<lparr>number = 12, rep = Some 1, init_sent = True, index_sent = True\<rparr>"
proof -
  let ?g = "streaming\<lparr>current := \<lparr>number = 16, rep = Some 1, init_sent = True, index_sent = True\<rparr>,
                next_pos := \<lparr>number = 16, rep = Some 1, init_sent = True, index_sent = True\<rparr>,
                events := [SegmentGap, SegmentChange 0 0 1 4 0]\<rparr>"
  let ?n = "streaming\<lparr>current := \<lparr>number = 11, rep = Some 1, init_sent = True, index_sent = True\<rparr>,
                next_pos := \<lparr>number = 12, rep = Some 1, init_sent = True, index_sent = True\<rparr>,
                events := [SegmentChange 0 0 1 4 0]\<rparr>"
  have g: "getNextChunk holed False 0 streaming = (Some (PlainChunk mp4Chunk), ?g)"
    by (simp add: deliver_defs eval_defs streaming_def holed_def)
  have n: "getNextChunk vod False 0 streaming = (Some (PlainChunk mp4Chunk), ?n)"
    by (simp add: deliver_defs eval_defs streaming_def)
  from getNextChunk_cursors [OF g] have "Position_isValid (current ?g)"
    by blast
  then have vg: "Position_isValid \<lparr>number = 16, rep = Some 1, init_sent = True, index_sent = True\<rparr>"
    by simp
  from getNextChunk_cursors [OF n] have "Position_isValid (current ?n)"
    by blast
  then have vn: "Position_isValid \<lparr>number = 11, rep = Some 1, init_sent = True, index_sent = True\<rparr>"
    by simp
  from getNextChunk_cursors [OF n] obtain e :: ChunkEntry where
    e: "current ?n = pos e" and
    nx: "Position_isValid (next_pos ?n) \<longleftrightarrow>
      SegmentGap \<in> set (emitted streaming ?n) \<or> \<not> index_sent (pos e) \<or>
      number (pos e) + 1 \<noteq> uint64_max"
    by blast
  from e have "number (pos e) = 11"
    by (cases "pos e") simp
  then have "number (pos e) + 1 \<noteq> uint64_max"
    by (simp add: uint64_max_def)
  with nx have "Position_isValid (next_pos ?n)"
    by blast
  then have vx: "Position_isValid \<lparr>number = 12, rep = Some 1, init_sent = True, index_sent = True\<rparr>"
    by simp
  from g n vg vn vx show ?thesis
    by blast
qed

text \<open>
  C1 as stated fails when the segment delivered has number \<open>2^64 - 2\<close>: a chunk is
  returned, and \<open>next\<close>, valid before the call, carries the sentinel number at return.
\<close>

theorem getNextChunk_next_sentinel_counterexample:
  "Position_isValid (next_pos lastSegment) \<and>
   fst (getNextChunk vod False 0 lastSegment) = Some (PlainChunk mp4Chunk) \<and>
   \<not> Position_isValid (next_pos (snd (getNextChunk vod False 0 lastSegment)))"
  by (simp add: deliver_defs eval_defs lastSegment_def)

text \<open>
  C8. In a call of \<open>getNextChunk\<close> that returns a chunk, a \<open>Discontinuity\<close> event is
  notified exactly when the chunk carries the discontinuity flag, \<open>current\<close> was valid
  at the start of the call and its number differed from the number of \<open>next\<close>; the
  event carries the chunk's discontinuity sequence number.
\<close>

theorem getNextChunk_discontinuity:
  assumes "getNextChunk env switch_allowed connManager s = (Some rc, s')"
  shows "Discontinuity d \<in> set (emitted s s') \<longleftrightarrow>
           d = discontinuitySequenceNumber (unwrapped rc) \<and>
           discontinuity (unwrapped rc) \<and> Position_isValid (current s) \<and>
           number (current s) \<noteq> number (next_pos s)"
proof -
  from getNextChunk_delivered [OF assms] obtain e c s1 fc i where
    f1: "format s1 \<noteq> Unsupported" and d: "deliver env e c s1 = (Some rc, s')" and
    ev: "emitted s s' =
       (if b_switched s e then [RepresentationSwitch (rep (next_pos s)) (rep (pos e))]
        else []) @
       map FormatChange fc @
       (if b_gap s e \<and> \<not> initializing s \<and> \<not> b_switched s e then [SegmentGap] else []) @
       (if b_discontinuity s c then [Discontinuity (discontinuitySequenceNumber c)] else []) @
       (case adaptationSet s of
          None \<Rightarrow> []
        | Some a \<Rightarrow> [SegmentChange i (discontinuitySequenceNumber c)
                       (starttime e) (duration e) (displaytime e)])"
    by blast
  from d have rc: "rc = the (fst (deliver env e c s1))" by simp
  have disc: "Discontinuity d \<in> set (emitted s s') \<longleftrightarrow>
      d = discontinuitySequenceNumber c \<and> b_discontinuity s c"
    unfolding ev by (auto split: option.splits)
  have flag: "discontinuity (unwrapped rc) = discontinuity c"
    "discontinuitySequenceNumber (unwrapped rc) = discontinuitySequenceNumber c"
    unfolding rc using deliver_chunk [OF f1, of env e c] by simp_all
  have b: "b_discontinuity s c \<longleftrightarrow>
      discontinuity c \<and> Position_isValid (current s) \<and> number (current s) \<noteq> number (next_pos s)"
    by (auto simp: b_discontinuity_def Let_def)
  show ?thesis
    unfolding disc flag b by blast
qed

theorem getNextChunk_discontinuity_witness:
  "getNextChunk spliced False 0 streaming =
     (Some (PlainChunk (mp4Chunk\<lparr>discontinuity := True, discontinuitySequenceNumber := 3\<rparr>)),
      streaming\<lparr>current := \<lparr>number = 11, rep = Some 1, init_sent = True, index_sent = True\<rparr>,
                next_pos := \<lparr>number = 12, rep = Some 1, init_sent = True, index_sent = True\<rparr>,
                events := [Discontinuity 3, SegmentChange 0 3 1 4 0]\<rparr>) \<and>
   Position_isValid (current streaming) \<and>
   number (current streaming) \<noteq> number (next_pos streaming) \<and>
   Discontinuity 3 \<in> set (emitted streaming
     (streaming\<lparr>current := \<lparr>number = 11, rep = Some 1, init_sent = True, index_sent = True\<rparr>,
                next_pos := \<lparr>number = 12, rep = Some 1, init_sent = True, index_sent = True\<rparr>,
                events := [Discontinuity 3, SegmentChange 0 3 1 4 0]\<rparr>))"
proof -
  let ?c = "mp4Chunk\<lparr>discontinuity := True, discontinuitySequenceNumber := 3\<rparr>"
  let ?d = "streaming\<lparr>current := \<lparr>number = 11, rep = Some 1, init_sent = True, index_sent = True\<rparr>,
                next_pos := \<lparr>number = 12, rep = Some 1, init_sent = True, index_sent = True\<rparr>,
                events := [Discontinuity 3, SegmentChange 0 3 1 4 0]\<rparr>"
  have d: "getNextChunk spliced False 0 streaming = (Some (PlainChunk ?c), ?d)"
    by (simp add: deliver_defs eval_defs streaming_def spliced_def)
  have v: "Position_isValid (current streaming)"
    by (simp add: streaming_def Position_isValid_def uint64_max_def)
  have m: "number (current streaming) \<noteq> number (next_pos streaming)"
    by (simp add: streaming_def)
  have f: "3 = discontinuitySequenceNumber (unwrapped (PlainChunk ?c))"
    "discontinuity (unwrapped (PlainChunk ?c))"
    by simp_all
  from getNextChunk_discontinuity [OF d, of 3] f v m
  have "Discontinuity 3 \<in> set (emitted streaming ?d)"
    by blast
  with d v m show ?thesis
    by blast
qed

subsection \<open>The first chunk\<close>

text \<open>
  C3. Start from a tracker just constructed or just reset, and make any calls of
  which no \<open>getNextChunk\<close> returns a chunk. The next \<open>getNextChunk\<close> that returns a
  chunk, the first successful one, notifies no \<open>SegmentGap\<close>, whatever the
  representation reported when it resolved the segment.
\<close>

theorem first_chunk_no_gap:
  assumes fresh: "s0 = SegmentTracker_new adaptSet w \<or> s0 = reset env s"
    and quiet: "\<forall>r \<in> set (fst (run env cs s0)). \<forall>x. r \<noteq> Returned (Some x)"
    and got: "getNextChunk env switch_allowed connManager (snd (run env cs s0)) = (Some rc, s')"
  shows "SegmentGap \<notin> set (emitted (snd (run env cs s0)) s')"
proof -
  from fresh have "initializing s0"
    by (auto simp: SegmentTracker_new_def reset_def notify_def resetChunksSequence_def Let_def)
  from run_initializing [OF this quiet] have init: "initializing (snd (run env cs s0))" .
  from getNextChunk_delivered [OF got] obtain e s1 where
    "frontEntry env switch_allowed connManager (snd (run env cs s0)) = Some (e, s1)"
    by blast
  from getNextChunk_gap [OF got this] init show ?thesis
    by simp
qed

theorem first_chunk_no_gap_witness:
  "run holed [GetNextChunk True 0, SetStartPosition] (SegmentTracker_new (Some 0) 0) =
     ([Returned None, Answered True], started) \<and>
   getNextChunk holed True 0 started =
     (Some (PlainChunk mp4Chunk),
      started\<lparr>current := \<lparr>number = 15, rep = Some 1, init_sent = False, index_sent = False\<rparr>,
              next_pos := \<lparr>number = 15, rep = Some 1, init_sent = True, index_sent = False\<rparr>,
              format := Known 1, initializing := False,
              events := [RepresentationSwitch (Some 1) (Some 1), FormatChange (Known 1),
                         SegmentChange 0 0 1 4 0]\<rparr>) \<and>
   number (next_pos started) = 10 \<and>
   SegmentGap \<notin> set (emitted started
     (started\<lparr>current := \<lparr>number = 15, rep = Some 1, init_sent = False, index_sent = False\<rparr>,
              next_pos := \<lparr>number = 15, rep = Some 1, init_sent = True, index_sent = False\<rparr>,
              format := Known 1, initializing := False,
              events := [RepresentationSwitch (Some 1) (Some 1), FormatChange (Known 1),
                         SegmentChange 0 0 1 4 0]\<rparr>))"
proof -
  let ?s' = "started\<lparr>current := \<lparr>number = 15, rep = Some 1, init_sent = False, index_sent = False\<rparr>,
              next_pos := \<lparr>number = 15, rep = Some 1, init_sent = True, index_sent = False\<rparr>,
              format := Known 1, initializing := False,
              events := [RepresentationSwitch (Some 1) (Some 1), FormatChange (Known 1),
                         SegmentChange 0 0 1 4 0]\<rparr>"
  have r: "run holed [GetNextChunk True 0, SetStartPosition] (SegmentTracker_new (Some 0) 0) =
      ([Returned None, Answered True], started)"
    by (simp add: deliver_defs eval_defs call_defs holed_def started_def)
  have fresh: "SegmentTracker_new (Some 0) 0 = SegmentTracker_new (Some 0) (0::nat) \<or>
      SegmentTracker_new (Some 0) 0 = reset holed started"
    by simp
  have quiet: "\<forall>r \<in> set (fst (run holed [GetNextChunk True 0, SetStartPosition]
      (SegmentTracker_new (Some 0) 0))). \<forall>x. r \<noteq> Returned (Some x)"
    unfolding r by simp
  have g: "getNextChunk holed True 0 started = (Some (PlainChunk mp4Chunk), ?s')"
    by (simp add: deliver_defs eval_defs call_defs holed_def started_def)
  then have got: "getNextChunk holed True 0
      (snd (run holed [GetNextChunk True 0, SetStartPosition] (SegmentTracker_new (Some 0) 0))) =
      (Some (PlainChunk mp4Chunk), ?s')"
    unfolding r by simp
  from first_chunk_no_gap [OF fresh quiet got]
  have "SegmentGap \<notin> set (emitted started ?s')"
    unfolding r by simp
  moreover have "number (next_pos started) = 10"
    by (simp add: started_def Position_at_def)
  ultimately show ?thesis
    using r g by blast
qed

subsection \<open>The unsupported format\<close>

text \<open>
  C6. Once the recorded format is \<open>Unsupported\<close>, after any calls other than \<open>reset\<close>
  the format is still \<open>Unsupported\<close>, none of these calls has returned a chunk, and
  the next \<open>getNextChunk\<close> returns null; when that call has a valid front entry, it
  leaves both cursors on the entry's position.
\<close>

theorem unsupported_is_terminal:
  assumes unsupported: "format s = Unsupported"
    and noreset: "Reset \<notin> set cs"
    and later: "run env cs s = (rs, s1)"
  shows "(\<forall>r \<in> set rs. \<forall>x. r \<noteq> Returned (Some x)) \<and>
         format s1 = Unsupported \<and>
         fst (getNextChunk env switch_allowed connManager s1) = None \<and>
         (\<forall>e s2. frontEntry env switch_allowed connManager s1 = Some (e, s2) \<longrightarrow>
                 ChunkEntry_isValid e \<longrightarrow>
                 current (snd (getNextChunk env switch_allowed connManager s1)) = pos e \<and>
                 next_pos (snd (getNextChunk env switch_allowed connManager s1)) = pos e)"
proof -
  from run_unsupported [OF unsupported noreset, of env] later
  have rs: "\<forall>r \<in> set rs. \<forall>x. r \<noteq> Returned (Some x)" and f: "format s1 = Unsupported"
    by simp_all
  have n: "fst (getNextChunk env switch_allowed connManager s1) = None"
    by (rule getNextChunk_unsupported [OF f])
  have c: "current (snd (getNextChunk env switch_allowed connManager s1)) = pos e \<and>
           next_pos (snd (getNextChunk env switch_allowed connManager s1)) = pos e"
    if fe: "frontEntry env switch_allowed connManager s1 = Some (e, s2)"
      and v: "ChunkEntry_isValid e" for e s2
  proof -
    from v obtain c where c: "chunk e = Some c" and p: "Position_isValid (pos e)"
      by (auto simp: ChunkEntry_isValid_def)
    from frontEntry_frame [OF fe] f have "format s2 = Unsupported" by simp
    then have "deliver env e c s2 = (None, advanceTo e (announceSwitch env e s2))"
      by (rule deliver_unsupported)
    with fe c p show ?thesis
      by (simp add: getNextChunk_def)
  qed
  from rs f n c show ?thesis by blast
qed

theorem unsupported_is_terminal_witness:
  "format (playing\<lparr>format := Unsupported\<rparr>) = Unsupported \<and>
   run vod [GetNextChunk True 0] (playing\<lparr>format := Unsupported\<rparr>) =
     ([Returned None], refused) \<and>
   format refused = Unsupported \<and>
   fst (getNextChunk vod True 0 refused) = None \<and>
   current (snd (getNextChunk vod True 0 refused)) =
     \<lparr>number = 10, rep = Some 2, init_sent = False, index_sent = False\<rparr> \<and>
   next_pos (snd (getNextChunk vod True 0 refused)) =
     \<lparr>number = 10, rep = Some 2, init_sent = False, index_sent = False\<rparr>"
proof -
  let ?e = "\<lparr>chunk = Some mp4Chunk,
          pos = \<lparr>number = 10, rep = Some 2, init_sent = False, index_sent = False\<rparr>,
          duration = 4, starttime = 1, displaytime = 0\<rparr>"
  have u: "format (playing\<lparr>format := Unsupported\<rparr>) = Unsupported"
    by simp
  have nr: "Reset \<notin> set [GetNextChunk True 0]"
    by simp
  have r: "run vod [GetNextChunk True 0] (playing\<lparr>format := Unsupported\<rparr>) =
      ([Returned None], refused)"
    by (simp add: deliver_defs eval_defs refused_def)
  have fe: "frontEntry vod True 0 refused = Some (?e, refused)"
    by (simp add: frontEntry_def refused_def Position_isValid_def uint64_max_def)
  have v: "ChunkEntry_isValid ?e"
    by (simp add: ChunkEntry_isValid_def Position_isValid_def uint64_max_def)
  note t = unsupported_is_terminal [OF u nr r, of True 0]
  from t have f: "format refused = Unsupported" by blast
  from t have n: "fst (getNextChunk vod True 0 refused) = None" by blast
  from t fe v have "current (snd (getNextChunk vod True 0 refused)) = pos ?e \<and>
      next_pos (snd (getNextChunk vod True 0 refused)) = pos ?e"
    by blast
  then have c: "current (snd (getNextChunk vod True 0 refused)) =
        \<lparr>number = 10, rep = Some 2, init_sent = False, index_sent = False\<rparr>"
      "next_pos (snd (getNextChunk vod True 0 refused)) =
        \<lparr>number = 10, rep = Some 2, init_sent = False, index_sent = False\<rparr>"
    by simp_all
  from u r f n c show ?thesis by blast
qed


subsection \<open>Seeking by time\<close>

text \<open>
  C9. What \<open>setPositionByTime\<close> returns and leaves, in terms of the tracker and the
  collaborators alone. The representation is that of \<open>current\<close> when \<open>current\<close> is
  valid, else the one the logic proposes; without one the result is false. When the
  representation needs an update and \<open>runLocalUpdates\<close> fails the result is false.
  Otherwise, after the refresh if there was one, the result is whether the
  representation maps the time to a segment number. \<open>tryonly\<close> does not enter the
  result: it only decides whether the position found, on that representation with
  both flags false, is committed by \<open>setPosition\<close>.
\<close>

theorem setPositionByTime_result:
  "setPositionByTime env time restarted tryonly s =
     (case (if Position_isValid (current s) then rep (current s)
            else getNextRepresentation env (world s) (adaptationSet s) None) of
        None \<Rightarrow> (False, s)
      | Some r \<Rightarrow>
          if needsUpdate env (world s) r (number (current s)) \<and>
             \<not> fst (runLocalUpdates env (world s) r)
          then (False, s\<lparr>world := snd (runLocalUpdates env (world s) r)\<rparr>)
          else
            (let s1 = (if needsUpdate env (world s) r (number (current s)) then
                         notify env (RepresentationUpdated (Some r))
                           (s\<lparr>world := scheduleNextUpdate env
                                          (snd (runLocalUpdates env (world s) r)) r
                                          (number (current s)) True\<rparr>)
                       else s)
             in case getSegmentNumberByTime env (world s1) r time of
                  None \<Rightarrow> (False, s1)
                | Some n \<Rightarrow>
                    (True,
                     if tryonly then s1
                     else setPosition env
                            \<lparr>number = n, rep = Some r, init_sent = False, index_sent = False\<rparr>
                            restarted s1))) \<and>
   fst (setPositionByTime env time restarted True s) =
     fst (setPositionByTime env time restarted False s)"
proof -
  have v: "Position_isValid (Position_at (rep (current s)) (number (current s))) =
      Position_isValid (current s)"
    by (simp add: Position_isValid_def Position_at_def)
  have sp: "rep (seekPosition env s) =
      (if Position_isValid (current s) then rep (current s)
       else getNextRepresentation env (world s) (adaptationSet s) None)"
    "number (seekPosition env s) = number (current s)"
    "(seekPosition env s)\<lparr>number := n\<rparr> =
       \<lparr>number = n, rep = rep (seekPosition env s), init_sent = False, index_sent = False\<rparr>" for n
    by (simp_all add: seekPosition_def Let_def v) (simp_all add: Position_at_def)
  have flat: "setPositionByTime env time restarted y s =
     (case (if Position_isValid (current s) then rep (current s)
            else getNextRepresentation env (world s) (adaptationSet s) None) of
        None \<Rightarrow> (False, s)
      | Some r \<Rightarrow>
          if needsUpdate env (world s) r (number (current s)) \<and>
             \<not> fst (runLocalUpdates env (world s) r)
          then (False, s\<lparr>world := snd (runLocalUpdates env (world s) r)\<rparr>)
          else
            (let s1 = (if needsUpdate env (world s) r (number (current s)) then
                         notify env (RepresentationUpdated (Some r))
                           (s\<lparr>world := scheduleNextUpdate env
                                          (snd (runLocalUpdates env (world s) r)) r
                                          (number (current s)) True\<rparr>)
                       else s)
             in case getSegmentNumberByTime env (world s1) r time of
                  None \<Rightarrow> (False, s1)
                | Some n \<Rightarrow>
                    (True,
                     if y then s1
                     else setPosition env
                            \<lparr>number = n, rep = Some r, init_sent = False, index_sent = False\<rparr>
                            restarted s1)))" for y
    unfolding setPositionByTime_def Let_def sp seekRefresh_def
    by (simp add: case_prod_beta split: option.split)
  have same: "fst (setPositionByTime env time restarted True s) =
     fst (setPositionByTime env time restarted False s)"
    unfolding flat [of True] flat [of False]
    by (simp add: Let_def split: option.split)
  from flat [of tryonly] same show ?thesis by blast
qed

theorem setPositionByTime_result_witness:
  "setPositionByTime vod 0 False True playing = (True, playing) \<and>
   setPositionByTime vod 0 False False playing =
     (True, setPosition vod \<lparr>number = 3, rep = Some 1, init_sent = False, index_sent = False\<rparr>
              False playing) \<and>
   \<not> Position_isValid (current (SegmentTracker_new (Some 0) (0::nat))) \<and>
   setPositionByTime vod 0 False True (SegmentTracker_new (Some 0) 0) =
     (True, SegmentTracker_new (Some 0) 0) \<and>
   setPositionByTime deserted 0 False False (SegmentTracker_new (Some 0) 0) =
     (False, SegmentTracker_new (Some 0) 0) \<and>
   setPositionByTime unseekable 0 False False playing = (False, playing) \<and>
   setPositionByTime stale 0 False False playing = (False, playing\<lparr>world := 1\<rparr>)"
proof -
  have a: "setPositionByTime vod 0 False True playing = (True, playing)"
    using setPositionByTime_result [of vod 0 False True playing]
    by (simp add: vod_def playing_def Position_isValid_def uint64_max_def)
  have b: "setPositionByTime vod 0 False False playing =
     (True, setPosition vod \<lparr>number = 3, rep = Some 1, init_sent = False, index_sent = False\<rparr>
              False playing)"
    using setPositionByTime_result [of vod 0 False False playing]
    by (simp add: vod_def playing_def Position_isValid_def uint64_max_def)
  have n: "\<not> Position_isValid (current (SegmentTracker_new (Some 0) (0::nat)))"
    by (simp add: SegmentTracker_new_def Position_isValid_def Position_default_def)
  have c: "setPositionByTime vod 0 False True (SegmentTracker_new (Some 0) 0) =
     (True, SegmentTracker_new (Some 0) 0)"
    using setPositionByTime_result [of vod 0 False True "SegmentTracker_new (Some 0) 0"]
    by (simp add: vod_def SegmentTracker_new_def Position_isValid_def Position_default_def)
  have d: "setPositionByTime deserted 0 False False (SegmentTracker_new (Some 0) 0) =
     (False, SegmentTracker_new (Some 0) 0)"
    using setPositionByTime_result [of deserted 0 False False "SegmentTracker_new (Some 0) 0"]
    by (simp add: deserted_def vod_def SegmentTracker_new_def Position_isValid_def
        Position_default_def)
  have e: "setPositionByTime unseekable 0 False False playing = (False, playing)"
    using setPositionByTime_result [of unseekable 0 False False playing]
    by (simp add: unseekable_def vod_def playing_def Position_isValid_def uint64_max_def)
  have f: "setPositionByTime stale 0 False False playing = (False, playing\<lparr>world := 1\<rparr>)"
    using setPositionByTime_result [of stale 0 False False playing]
    by (simp add: stale_def vod_def playing_def Position_isValid_def uint64_max_def)
  from a b n c d e f show ?thesis by blast
qed

subsection \<open>Format probing\<close>

text \<open>
  C7, at a chunk of unknown declared format whose bytes match no signature and whose
  content type is MP4, first chunk of a started tracker: line 415 stores the format
  of the content type in the tracker's own \<open>format\<close>, not in \<^verbatim>\<open>chunkformat\<close>. The
  chunk returned keeps \<open>Unknown\<close> as its format, the recorded format becomes MP4, and
  no \<open>FormatChange\<close> is notified.
\<close>

theorem content_type_fallback_is_silent:
  "snd (setStartPosition vod (SegmentTracker_new (Some 0) 0)) = started \<and>
   format started = Unknown \<and>
   formatOfBytes untyped (peek (mp4Chunk\<lparr>streamFormat := Unknown\<rparr>)) = Unknown \<and>
   formatOfContentType untyped (contentType (mp4Chunk\<lparr>streamFormat := Unknown\<rparr>)) = Known 1 \<and>
   fst (getNextChunk untyped True 0 started) =
     Some (ProbeableChunk (mp4Chunk\<lparr>streamFormat := Unknown\<rparr>)) \<and>
   format (snd (getNextChunk untyped True 0 started)) = Known 1 \<and>
   emitted started (snd (getNextChunk untyped True 0 started)) =
     [RepresentationSwitch (Some 1) (Some 1), SegmentChange 0 0 1 4 0]"
  by (simp add: deliver_defs eval_defs call_defs untyped_def started_def emitted_def)

end
